theory Spec2Isabelle
  imports Complex_Main "HOL-Library.Sublist"
begin

section \<open>Kino: a logging facade over the console and an error-tracking client\<close>

text \<open>
  The development embeds \<^verbatim>\<open>Kino.ts\<close> and \<^verbatim>\<open>constants.ts\<close>. The class has two static
  fields (\<^verbatim>\<open>Kino.instance\<close>, \<^verbatim>\<open>Kino.locale\<close>) and talks to three collaborators it does not
  own: the console, the \<^verbatim>\<open>@sentry/node\<close> SDK and the \<^verbatim>\<open>process\<close> event emitter. All of
  them are fields of one explicit \<open>world\<close> record that every method takes and returns.
  A method that throws returns \<open>Inl\<close> of the error together with the world as it is at the
  moment of the throw.

  Naming: the instance method \<^verbatim>\<open>log\<close> is \<open>Kino_log\<close>, the static method of the same name is
  \<open>Kino_static_log\<close>, and so on for every method; the static fields are \<open>Kino_instance\<close>
  and \<open>Kino_locale\<close>.
\<close>

subsection \<open>Values a caller can log\<close>

text \<open>
  Entries are typed \<^verbatim>\<open>any\<close>. The only thing the code asks of an entry is
  \<^verbatim>\<open>typeof entry === 'string'\<close>, which holds exactly for \<open>JStr\<close>.
\<close>

datatype js_value =
    JUndefined
  | JNull
  | JBool bool
  | JNum real
  | JStr string
  | JArr "js_value list"
  | JObj "(string \<times> js_value) list"
  | JErrorObj string

datatype js_error =
    JsError string
  | JsTypeError string
  | JsRangeError string

fun typeof_is_string :: "js_value \<Rightarrow> bool" where
  "typeof_is_string (JStr s) = True"
| "typeof_is_string v = False"

subsection \<open>constants.ts\<close>

datatype level = Level_log | Level_info | Level_success | Level_warn | Level_error | Level_debug

datatype chalk = cyan | white | green | yellow | red | blueBright

fun LEVELS :: "level \<Rightarrow> string" where
  "LEVELS Level_log = ''LOG''"
| "LEVELS Level_info = ''INFO''"
| "LEVELS Level_success = ''SUCCESS''"
| "LEVELS Level_warn = ''WARN''"
| "LEVELS Level_error = ''ERROR''"
| "LEVELS Level_debug = ''DEBUG''"

fun COLORS :: "level \<Rightarrow> chalk" where
  "COLORS Level_log = cyan"
| "COLORS Level_info = white"
| "COLORS Level_success = green"
| "COLORS Level_warn = yellow"
| "COLORS Level_error = red"
| "COLORS Level_debug = blueBright"

subsection \<open>The console\<close>

text \<open>
  A console call is recorded with the writer that was chosen and its two arguments: the
  prefix (a string passed through a chalk colour) and the rendered entry. The output of
  \<^verbatim>\<open>util.inspect\<close> is not reimplemented: the call is recorded with the options it is
  given. What the writer prints from its two arguments (its own format substitution on
  the first one, the colour codes) is the host's and is not modelled.
\<close>

datatype writer = console_error | console_warn | console_info | console_debug | console_log

datatype styled = Styled chalk string

datatype rendered =
    AsIs string
  | Inspect js_value nat bool

record console_call =
  call_writer :: writer
  call_prefix :: styled
  call_text :: rendered

fun styled_text :: "styled \<Rightarrow> string" where
  "styled_text (Styled c s) = s"

subsection \<open>The error-tracking SDK\<close>

datatype integration =
    functionToStringIntegration
  | linkedErrorsIntegration
  | consoleIntegration "string list"
  | nativeNodeFetchIntegration
  | httpIntegration
  | contextLinesIntegration
  | childProcessIntegration
  | modulesIntegration
  | onUncaughtExceptionIntegration
  | onUnhandledRejectionIntegration
  | anrIntegration bool
  | knexIntegration
  | mysql2Integration

text \<open>
  \<^verbatim>\<open>Sentry.NodeOptions\<close> is an object of optional properties. \<^verbatim>\<open>init\<close> spreads the
  caller's object over its own literal, and a spread copies a property that is present
  with the value \<^verbatim>\<open>undefined\<close>, while \<^verbatim>\<open>??\<close> and \<^verbatim>\<open>!\<close> treat it like an absent one.
  A property therefore has three states.
\<close>

datatype 'a property = Absent | Undefined | Value 'a

datatype default_integrations = DefaultsFalse | DefaultsList "integration list"

record NodeOptions =
  tracesSampleRate :: "real property"
  defaultIntegrations :: "default_integrations property"
  integrations :: "integration list property"
  maxBreadcrumbs :: "int property"
  sendClientReports :: "bool property"
  dsn :: "string property"

definition no_options :: NodeOptions where
  "no_options =
     \<lparr>tracesSampleRate = Absent, defaultIntegrations = Absent, integrations = Absent,
      maxBreadcrumbs = Absent, sendClientReports = Absent, dsn = Absent\<rparr>"

text \<open>\<^verbatim>\<open>a ?? b\<close> on a property read: an absent property reads as \<^verbatim>\<open>undefined\<close>.\<close>

fun nullish :: "'a property \<Rightarrow> 'a \<Rightarrow> 'a" where
  "nullish (Value v) d = v"
| "nullish Absent d = d"
| "nullish Undefined d = d"

text \<open>Truthiness of \<^verbatim>\<open>config.sentry.defaultIntegrations\<close>: an array is truthy, also when empty.\<close>

fun truthy_defaults :: "default_integrations property \<Rightarrow> bool" where
  "truthy_defaults (Value (DefaultsList l)) = True"
| "truthy_defaults p = False"

text \<open>One property of \<^verbatim>\<open>{...a, ...b}\<close>: \<open>b\<close>'s wins when \<open>b\<close> has the property at all.\<close>

fun spread_prop :: "'a property \<Rightarrow> 'a property \<Rightarrow> 'a property" where
  "spread_prop a Absent = a"
| "spread_prop a b = b"

definition spread :: "NodeOptions \<Rightarrow> NodeOptions \<Rightarrow> NodeOptions" where
  "spread a b =
     \<lparr>tracesSampleRate = spread_prop (tracesSampleRate a) (tracesSampleRate b),
      defaultIntegrations = spread_prop (defaultIntegrations a) (defaultIntegrations b),
      integrations = spread_prop (integrations a) (integrations b),
      maxBreadcrumbs = spread_prop (maxBreadcrumbs a) (maxBreadcrumbs b),
      sendClientReports = spread_prop (sendClientReports a) (sendClientReports b),
      dsn = spread_prop (dsn a) (dsn b)\<rparr>"

text \<open>
  \<^verbatim>\<open>SentryCaptureContext\<close>. Its properties are only copied by a spread or read with
  \<^verbatim>\<open>?.\<close>, so \<open>None\<close> stands for a property that is absent or \<^verbatim>\<open>undefined\<close>. The object that
  \<^verbatim>\<open>error\<close> and \<^verbatim>\<open>trace\<close> build always has \<^verbatim>\<open>tags\<close>.
\<close>

record user_identity =
  user_id :: string
  username :: string

record SentryCaptureContext =
  tags :: "(string \<rightharpoonup> string) option"
  extras :: "(string \<times> js_value) list option"
  user :: "user_identity option"

datatype sentry_call =
    Sentry_init_call NodeOptions
  | Sentry_captureException_call js_value SentryCaptureContext

subsection \<open>The process and the world\<close>

text \<open>
  The two listeners \<^verbatim>\<open>init\<close> may register are the closures
  \<^verbatim>\<open>(reason) => { Kino.error(reason) }\<close> and \<^verbatim>\<open>async (error) => { Kino.error(error) }\<close>.
  They are kept as tags and interpreted by \<open>run_listener\<close> below.
\<close>

datatype listener = unhandledRejection_listener | uncaughtException_listener

record Kino =
  module :: string

record world =
  Kino_instance :: "Kino option"
  Kino_locale :: string
  sentry_client :: "NodeOptions option"
  sentry_calls :: "sentry_call list"
  console :: "console_call list"
  process_listeners :: "(string \<times> listener) list"
  toLocaleString :: "string \<Rightarrow> string option"

text \<open>
  \<open>toLocaleString w l\<close> is the outcome of \<^verbatim>\<open>new Date().toLocaleString(l, {...})\<close> in \<open>w\<close>:
  \<open>Some\<close> of the string it returns, or \<open>None\<close> when it throws its \<^verbatim>\<open>RangeError\<close>, which it
  does for a locale that is not a well-formed language tag. The clock, the date
  formatting and the set of tags it accepts belong to the host. The console writers,
  \<^verbatim>\<open>util.inspect\<close>, chalk and the SDK's functions are taken to return. A process starts
  with the static initialisers of the class and a client-less SDK.
\<close>

definition process_start :: "(string \<Rightarrow> string option) \<Rightarrow> world" where
  "process_start clock =
     \<lparr>Kino_instance = None, Kino_locale = ''en-US'', sentry_client = None, sentry_calls = [],
      console = [], process_listeners = [], toLocaleString = clock\<rparr>"

type_synonym 'a result = "(js_error + 'a) \<times> world"

definition Sentry_init :: "NodeOptions \<Rightarrow> world \<Rightarrow> world" where
  "Sentry_init options w =
     w\<lparr>sentry_client := Some options,
       sentry_calls := sentry_calls w @ [Sentry_init_call options]\<rparr>"

definition Sentry_getClient :: "world \<Rightarrow> NodeOptions option" where
  "Sentry_getClient w = sentry_client w"

definition Sentry_captureException :: "js_value \<Rightarrow> SentryCaptureContext \<Rightarrow> world \<Rightarrow> world" where
  "Sentry_captureException exception hint w =
     w\<lparr>sentry_calls := sentry_calls w @ [Sentry_captureException_call exception hint]\<rparr>"

definition process_on :: "string \<Rightarrow> listener \<Rightarrow> world \<Rightarrow> world" where
  "process_on event l w = w\<lparr>process_listeners := process_listeners w @ [(event, l)]\<rparr>"

subsection \<open>Kino.init\<close>

text \<open>
  \<^verbatim>\<open>KinoInitOptions\<close>. Every property is read through \<^verbatim>\<open>if (...)\<close>, \<^verbatim>\<open>??\<close> or \<^verbatim>\<open>?.\<close>, so
  \<open>None\<close> stands for absent or \<^verbatim>\<open>undefined\<close>. The keys admitted by the index signature
  are never read; they are kept in \<open>extra\<close>.
\<close>

record KinoInitOptions =
  sentry :: "NodeOptions option"
  packages :: "string list option"
  ANR :: "bool option"
  defaultIntanceTitle :: "string option"
  locale_option :: "string option"
  autoCaptureUnhandledRejections :: "bool option"
  extra :: "(string \<times> js_value) list"

definition empty_config :: KinoInitOptions where
  "empty_config =
     \<lparr>sentry = None, packages = None, ANR = None, defaultIntanceTitle = None,
      locale_option = None, autoCaptureUnhandledRejections = None, extra = []\<rparr>"

text \<open>
  Truthiness of an optional boolean. (The one string tested for truthiness,
  \<^verbatim>\<open>config.locale\<close>, is falsy when absent or empty.)
\<close>

fun truthy_bool :: "bool option \<Rightarrow> bool" where
  "truthy_bool None = False"
| "truthy_bool (Some b) = b"

text \<open>\<^verbatim>\<open>config.packages?.includes(name)\<close>, used as a condition.\<close>

fun packages_includes :: "string list option \<Rightarrow> string \<Rightarrow> bool" where
  "packages_includes None name = False"
| "packages_includes (Some ps) name = (name \<in> set ps)"

text \<open>
  The local \<^verbatim>\<open>integrations\<close> of \<^verbatim>\<open>init\<close>: the array literal, then the four conditional
  \<^verbatim>\<open>push\<close> statements in their order.
\<close>

definition baseline_integrations :: "integration list" where
  "baseline_integrations =
     [functionToStringIntegration,
      linkedErrorsIntegration,
      consoleIntegration [''error'', ''warn'', ''debug'', ''trace''],
      nativeNodeFetchIntegration,
      httpIntegration,
      contextLinesIntegration,
      childProcessIntegration,
      modulesIntegration]"

definition assembled_integrations :: "KinoInitOptions \<Rightarrow> integration list" where
  "assembled_integrations config =
     (let i0 = baseline_integrations;
          i1 = (if \<not> truthy_bool (autoCaptureUnhandledRejections config)
                then i0 @ [onUncaughtExceptionIntegration, onUnhandledRejectionIntegration]
                else i0);
          i2 = (if truthy_bool (ANR config) then i1 @ [anrIntegration True] else i1);
          i3 = (if packages_includes (packages config) ''knex'' then i2 @ [knexIntegration] else i2);
          i4 = (if packages_includes (packages config) ''mysql2'' then i3 @ [mysql2Integration] else i3)
      in i4)"

text \<open>The object literal passed to \<^verbatim>\<open>Sentry.init\<close>, property by property, in its order.\<close>

definition init_options :: "KinoInitOptions \<Rightarrow> NodeOptions \<Rightarrow> NodeOptions" where
  "init_options config s =
     (let o1 = no_options\<lparr>tracesSampleRate := Value (nullish (tracesSampleRate s) 0.1)\<rparr>;
          o2 = spread o1
                 (if \<not> truthy_defaults (defaultIntegrations s)
                  then no_options\<lparr>defaultIntegrations := Value DefaultsFalse\<rparr>
                  else no_options);
          o3 = o2\<lparr>integrations := Value (assembled_integrations config)\<rparr>;
          o4 = o3\<lparr>maxBreadcrumbs := Value (nullish (maxBreadcrumbs s) 5)\<rparr>;
          o5 = o4\<lparr>sendClientReports := Value False\<rparr>
      in spread o5 s)"

definition new_Kino :: "string \<Rightarrow> Kino" where
  "new_Kino m = \<lparr>module = m\<rparr>"

definition Kino_init :: "KinoInitOptions \<Rightarrow> world \<Rightarrow> unit result" where
  "Kino_init config w =
     (if Kino_instance w \<noteq> None then (Inl (JsError ''Logger already initialized''), w)
      else
        let w1 = (case locale_option config of
                    None \<Rightarrow> w
                  | Some l \<Rightarrow> if l \<noteq> [] then w\<lparr>Kino_locale := l\<rparr> else w);
            w2 = w1\<lparr>Kino_instance :=
                      Some (new_Kino (case defaultIntanceTitle config of
                                        None \<Rightarrow> ''GLOBAL''
                                      | Some t \<Rightarrow> t))\<rparr>;
            w3 = (case sentry config of
                    None \<Rightarrow> w2
                  | Some s \<Rightarrow> Sentry_init (init_options config s) w2);
            w4 = (if truthy_bool (autoCaptureUnhandledRejections config)
                  then process_on ''uncaughtException'' uncaughtException_listener
                         (process_on ''unhandledRejection'' unhandledRejection_listener w3)
                  else w3)
        in (Inr (), w4))"

subsection \<open>Formatting and emitting\<close>

text \<open>
  \<^verbatim>\<open>formatDate\<close> hands \<^verbatim>\<open>Kino.locale\<close> to the host as it is; \<^verbatim>\<open>init\<close> stores any
  non-empty string there.
\<close>

definition invalid_locale :: js_error where
  "invalid_locale = JsRangeError ''Incorrect locale information provided''"

definition Kino_formatDate :: "world \<Rightarrow> js_error + string" where
  "Kino_formatDate w =
     (case toLocaleString w (Kino_locale w) of
        None \<Rightarrow> Inl invalid_locale
      | Some date \<Rightarrow> Inr date)"

fun writer_of :: "level \<Rightarrow> writer" where
  "writer_of Level_error = console_error"
| "writer_of Level_warn = console_warn"
| "writer_of Level_info = console_info"
| "writer_of Level_debug = console_debug"
| "writer_of t = console_log"

definition render :: "js_value \<Rightarrow> rendered" where
  "render entry = (case entry of JStr s \<Rightarrow> AsIs s | v \<Rightarrow> Inspect v 3 True)"

text \<open>The \<^verbatim>\<open>for (const entry of entries)\<close> loop of \<^verbatim>\<open>output\<close>: one console call per entry.\<close>

fun write_entries :: "writer \<Rightarrow> styled \<Rightarrow> js_value list \<Rightarrow> world \<Rightarrow> world" where
  "write_entries wr pre [] w = w"
| "write_entries wr pre (entry # entries) w =
     write_entries wr pre entries
       (w\<lparr>console := console w @
            [\<lparr>call_writer = wr, call_prefix = pre, call_text = render entry\<rparr>]\<rparr>)"

text \<open>
  \<^verbatim>\<open>output\<close> builds the prefix, and so calls \<^verbatim>\<open>formatDate\<close>, before it picks the writer
  and enters the loop: when the formatter throws, nothing has been written.
\<close>

definition Kino_output :: "Kino \<Rightarrow> level \<Rightarrow> js_value list \<Rightarrow> world \<Rightarrow> unit result" where
  "Kino_output this type entries w =
     (let color = COLORS type;
          lvl = LEVELS type
      in case Kino_formatDate w of
           Inl e \<Rightarrow> (Inl e, w)
         | Inr date \<Rightarrow>
             let pre = Styled color
                         (''['' @ date @ '' - '' @ module this @ '' - '' @ lvl @ '']'')
             in (Inr (), write_entries (writer_of type) pre entries w))"

subsection \<open>The level methods\<close>

definition not_initialized :: js_error where
  "not_initialized = JsError ''Logger not initialized''"

definition Kino_log :: "Kino \<Rightarrow> js_value list \<Rightarrow> world \<Rightarrow> unit result" where
  "Kino_log this entries w =
     (if Kino_instance w = None then (Inl not_initialized, w)
      else Kino_output this Level_log entries w)"

text \<open>
  The static \<^verbatim>\<open>log\<close> has no guard of its own: it reads \<^verbatim>\<open>this.instance.log\<close> at once, and a
  property read on \<^verbatim>\<open>undefined\<close> throws a \<^verbatim>\<open>TypeError\<close>.
\<close>

definition Kino_static_log :: "js_value list \<Rightarrow> world \<Rightarrow> unit result" where
  "Kino_static_log entries w =
     (case Kino_instance w of
        None \<Rightarrow> (Inl (JsTypeError ''Cannot read properties of undefined (reading 'log')''), w)
      | Some inst \<Rightarrow> Kino_log inst entries w)"

definition Kino_info :: "Kino \<Rightarrow> js_value list \<Rightarrow> world \<Rightarrow> unit result" where
  "Kino_info this entries w =
     (if Kino_instance w = None then (Inl not_initialized, w)
      else Kino_output this Level_info entries w)"

definition Kino_static_info :: "js_value list \<Rightarrow> world \<Rightarrow> unit result" where
  "Kino_static_info entries w =
     (case Kino_instance w of
        None \<Rightarrow> (Inl not_initialized, w)
      | Some inst \<Rightarrow> Kino_info inst entries w)"

definition Kino_debug :: "Kino \<Rightarrow> js_value list \<Rightarrow> world \<Rightarrow> unit result" where
  "Kino_debug this entries w =
     (if Kino_instance w = None then (Inl not_initialized, w)
      else Kino_output this Level_debug entries w)"

definition Kino_static_debug :: "js_value list \<Rightarrow> world \<Rightarrow> unit result" where
  "Kino_static_debug entries w =
     (case Kino_instance w of
        None \<Rightarrow> (Inl not_initialized, w)
      | Some inst \<Rightarrow> Kino_debug inst entries w)"

definition Kino_success :: "Kino \<Rightarrow> js_value list \<Rightarrow> world \<Rightarrow> unit result" where
  "Kino_success this entries w =
     (if Kino_instance w = None then (Inl not_initialized, w)
      else Kino_output this Level_success entries w)"

definition Kino_static_success :: "js_value list \<Rightarrow> world \<Rightarrow> unit result" where
  "Kino_static_success entries w =
     (case Kino_instance w of
        None \<Rightarrow> (Inl not_initialized, w)
      | Some inst \<Rightarrow> Kino_success inst entries w)"

definition Kino_warn :: "Kino \<Rightarrow> js_value list \<Rightarrow> world \<Rightarrow> unit result" where
  "Kino_warn this entries w =
     (if Kino_instance w = None then (Inl not_initialized, w)
      else Kino_output this Level_warn entries w)"

definition Kino_static_warn :: "js_value list \<Rightarrow> world \<Rightarrow> unit result" where
  "Kino_static_warn entries w =
     (case Kino_instance w of
        None \<Rightarrow> (Inl not_initialized, w)
      | Some inst \<Rightarrow> Kino_warn inst entries w)"

subsection \<open>error and trace\<close>

text \<open>\<^verbatim>\<open>context?.tags\<close>, \<^verbatim>\<open>context?.extras\<close>, \<^verbatim>\<open>context?.user\<close> and the spread of optional tags.\<close>

fun context_tags :: "SentryCaptureContext option \<Rightarrow> (string \<rightharpoonup> string)" where
  "context_tags None = Map.empty"
| "context_tags (Some c) = (case tags c of None \<Rightarrow> Map.empty | Some t \<Rightarrow> t)"

fun context_extras :: "SentryCaptureContext option \<Rightarrow> (string \<times> js_value) list option" where
  "context_extras None = None"
| "context_extras (Some c) = extras c"

fun context_user :: "SentryCaptureContext option \<Rightarrow> user_identity option" where
  "context_user None = None"
| "context_user (Some c) = user c"

text \<open>\<^verbatim>\<open>{ ...context, tags: { ...context?.tags, [key]: value } }\<close>\<close>

definition with_tag :: "SentryCaptureContext option \<Rightarrow> string \<Rightarrow> string \<Rightarrow> SentryCaptureContext" where
  "with_tag context key v =
     \<lparr>tags = Some ((context_tags context)(key \<mapsto> v)),
      extras = context_extras context,
      user = context_user context\<rparr>"

definition Kino_error :: "Kino \<Rightarrow> js_value \<Rightarrow> SentryCaptureContext option \<Rightarrow> world \<Rightarrow> unit result" where
  "Kino_error this err context w =
     (if Kino_instance w = None then (Inl not_initialized, w)
      else
        case Kino_output this Level_error [err] w of
          (Inl e, w1) \<Rightarrow> (Inl e, w1)
        | (Inr u, w1) \<Rightarrow>
            (case Sentry_getClient w1 of
               None \<Rightarrow> (Inr (), w1)
             | Some client \<Rightarrow>
                 (Inr (),
                  Sentry_captureException err (with_tag context ''module'' (module this)) w1)))"

definition Kino_static_error :: "js_value \<Rightarrow> SentryCaptureContext option \<Rightarrow> world \<Rightarrow> unit result" where
  "Kino_static_error err context w =
     (case Kino_instance w of
        None \<Rightarrow> (Inl not_initialized, w)
      | Some inst \<Rightarrow> Kino_error inst err context w)"

type_synonym callback = "js_value \<Rightarrow> world \<Rightarrow> unit result"

text \<open>
  The arrow function \<^verbatim>\<open>trace\<close> returns, with the variables it closes over (\<^verbatim>\<open>this\<close>,
  \<^verbatim>\<open>uid\<close>, \<^verbatim>\<open>context\<close>) as parameters.
\<close>

definition trace_callback :: "Kino \<Rightarrow> string \<Rightarrow> SentryCaptureContext option \<Rightarrow> callback" where
  "trace_callback this uid context =
     (\<lambda>err. let fullContext = with_tag context ''trace_uid'' uid
            in Kino_error this err (Some fullContext))"

definition Kino_trace :: "Kino \<Rightarrow> string \<Rightarrow> SentryCaptureContext option \<Rightarrow> world \<Rightarrow> callback result" where
  "Kino_trace this uid context w =
     (if Kino_instance w = None then (Inl not_initialized, w)
      else (Inr (trace_callback this uid context), w))"

definition Kino_static_trace :: "string \<Rightarrow> world \<Rightarrow> callback result" where
  "Kino_static_trace uid w =
     (case Kino_instance w of
        None \<Rightarrow> (Inl not_initialized, w)
      | Some inst \<Rightarrow> Kino_trace inst uid None w)"

subsection \<open>Listeners and call sequences\<close>

text \<open>
  Both listeners have the body \<^verbatim>\<open>Kino.error(x)\<close> on their argument. What \<^verbatim>\<open>Kino.error\<close>
  throws inside the \<^verbatim>\<open>async\<close> one surfaces as a rejected promise; here it is the \<open>Inl\<close>
  outcome of the listener all the same.
\<close>

fun run_listener :: "listener \<Rightarrow> js_value \<Rightarrow> world \<Rightarrow> unit result" where
  "run_listener unhandledRejection_listener reason w = Kino_static_error reason None w"
| "run_listener uncaughtException_listener err w = Kino_static_error err None w"

fun run_listeners :: "listener list \<Rightarrow> js_value \<Rightarrow> world \<Rightarrow> unit result" where
  "run_listeners [] v w = (Inr (), w)"
| "run_listeners (l # ls) v w =
     (case run_listener l v w of
        (Inl e, w') \<Rightarrow> (Inl e, w')
      | (Inr u, w') \<Rightarrow> run_listeners ls v w')"

definition process_emit :: "string \<Rightarrow> js_value \<Rightarrow> world \<Rightarrow> unit result" where
  "process_emit event v w =
     run_listeners (map snd (filter (\<lambda>p. fst p = event) (process_listeners w))) v w"

text \<open>
  What a host can do with the class: call \<^verbatim>\<open>init\<close>, call a method on the class
  (\<open>Static\<close>) or on an instance it built with \<^verbatim>\<open>new Kino(label)\<close>, call a callback
  that \<^verbatim>\<open>trace\<close> returned earlier (\<open>Invoke\<close>, with the variables the callback
  closed over), and have the process emit an event. The static \<^verbatim>\<open>trace\<close> takes no
  context. A host that catches what a call throws goes on in the world the call left.
\<close>

datatype receiver = Static | Instance Kino

datatype call =
    Init KinoInitOptions
  | Log receiver "js_value list"
  | Info receiver "js_value list"
  | Debug receiver "js_value list"
  | Success receiver "js_value list"
  | Warn receiver "js_value list"
  | Error receiver js_value "SentryCaptureContext option"
  | Trace receiver string "SentryCaptureContext option"
  | Invoke Kino string "SentryCaptureContext option" js_value
  | Emit string js_value

definition discard :: "'a result \<Rightarrow> unit result" where
  "discard r = (case r of (Inl e, w) \<Rightarrow> (Inl e, w) | (Inr x, w) \<Rightarrow> (Inr (), w))"

fun exec :: "call \<Rightarrow> world \<Rightarrow> unit result" where
  "exec (Init config) w = Kino_init config w"
| "exec (Log Static entries) w = Kino_static_log entries w"
| "exec (Log (Instance k) entries) w = Kino_log k entries w"
| "exec (Info Static entries) w = Kino_static_info entries w"
| "exec (Info (Instance k) entries) w = Kino_info k entries w"
| "exec (Debug Static entries) w = Kino_static_debug entries w"
| "exec (Debug (Instance k) entries) w = Kino_debug k entries w"
| "exec (Success Static entries) w = Kino_static_success entries w"
| "exec (Success (Instance k) entries) w = Kino_success k entries w"
| "exec (Warn Static entries) w = Kino_static_warn entries w"
| "exec (Warn (Instance k) entries) w = Kino_warn k entries w"
| "exec (Error Static err context) w = Kino_static_error err context w"
| "exec (Error (Instance k) err context) w = Kino_error k err context w"
| "exec (Trace Static uid context) w = discard (Kino_static_trace uid w)"
| "exec (Trace (Instance k) uid context) w = discard (Kino_trace k uid context w)"
| "exec (Invoke k uid context v) w = trace_callback k uid context v w"
| "exec (Emit event v) w = process_emit event v w"

fun run :: "call list \<Rightarrow> world \<Rightarrow> world" where
  "run [] w = w"
| "run (c # cs) w = run cs (snd (exec c w))"

text \<open>The instance a call runs on, given the default instance.\<close>

fun this_of :: "receiver \<Rightarrow> Kino \<Rightarrow> Kino" where
  "this_of Static g = g"
| "this_of (Instance k) g = k"

text \<open>The five methods that only format and emit, each with its key of \<open>LEVELS\<close>.\<close>

definition level_methods :: "((receiver \<Rightarrow> js_value list \<Rightarrow> call) \<times> level) list" where
  "level_methods =
     [(Log, Level_log), (Info, Level_info), (Debug, Level_debug),
      (Success, Level_success), (Warn, Level_warn)]"

text \<open>The calls that log, with the values they are given to log.\<close>

fun logged_entries :: "call \<Rightarrow> js_value list option" where
  "logged_entries (Log r entries) = Some entries"
| "logged_entries (Info r entries) = Some entries"
| "logged_entries (Debug r entries) = Some entries"
| "logged_entries (Success r entries) = Some entries"
| "logged_entries (Warn r entries) = Some entries"
| "logged_entries (Error r err context) = Some [err]"
| "logged_entries (Invoke k uid context err) = Some [err]"
| "logged_entries c = None"

text \<open>
  A host for concrete runs: its formatter rejects a locale with an underscore, which is
  not a well-formed language tag (\<^verbatim>\<open>'en_US'\<close> for \<^verbatim>\<open>'en-US'\<close>), and gives one fixed time
  for the others.
\<close>

definition fixed_clock :: "string \<Rightarrow> string option" where
  "fixed_clock l = (if CHR ''_'' \<in> set l then None else Some ''11/02/2026, 09:30:00 AM'')"

text \<open>The world right after \<^verbatim>\<open>Kino.init({})\<close> at process start.\<close>

definition initialized_world :: world where
  "initialized_world = snd (Kino_init empty_config (process_start fixed_clock))"

text \<open>
  The world right after \<^verbatim>\<open>Kino.init({locale: 'en_US', sentry: {}})\<close> at process start:
  the logger is initialised, the SDK has a client, and the stored locale is one the
  formatter rejects.
\<close>

definition bad_locale_world :: world where
  "bad_locale_world =
     snd (Kino_init (empty_config\<lparr>locale_option := Some ''en_US'', sentry := Some no_options\<rparr>)
            (process_start fixed_clock))"

section \<open>Properties\<close>

subsection \<open>What output writes, and what never changes the default instance\<close>

lemma write_entries_eq:
  "write_entries wr pre entries w =
     w\<lparr>console := console w @
          map (\<lambda>entry. \<lparr>call_writer = wr, call_prefix = pre, call_text = render entry\<rparr>) entries\<rparr>"
  by (induction entries arbitrary: w) simp_all

lemma Kino_output_eq:
  "Kino_output this t entries w =
     (case toLocaleString w (Kino_locale w) of
        None \<Rightarrow> (Inl invalid_locale, w)
      | Some date \<Rightarrow>
          (Inr (),
           w\<lparr>console := console w @
                map (\<lambda>entry. \<lparr>call_writer = writer_of t,
                               call_prefix = Styled (COLORS t)
                                 (''['' @ date @ '' - '' @ module this @
                                  '' - '' @ LEVELS t @ '']''),
                               call_text = render entry\<rparr>) entries\<rparr>))"
  by (simp add: Kino_output_def Kino_formatDate_def write_entries_eq split: option.splits)

lemma Kino_output_instance [simp]:
  "Kino_instance (snd (Kino_output this t entries w)) = Kino_instance w"
  by (simp add: Kino_output_eq split: option.splits)

lemma Kino_error_eq:
  assumes "Kino_instance w \<noteq> None"
  shows "Kino_error this v context w =
     (case toLocaleString w (Kino_locale w) of
        None \<Rightarrow> (Inl invalid_locale, w)
      | Some date \<Rightarrow>
          (Inr (),
           w\<lparr>console := console w @
                [\<lparr>call_writer = console_error,
                  call_prefix = Styled red
                    (''['' @ date @ '' - '' @ module this @ '' - ERROR]''),
                  call_text = render v\<rparr>],
             sentry_calls := sentry_calls w @
                (if Sentry_getClient w \<noteq> None
                 then [Sentry_captureException_call v (with_tag context ''module'' (module this))]
                 else [])\<rparr>))"
  using assms
  by (auto simp: Kino_error_def Kino_output_eq Sentry_getClient_def Sentry_captureException_def
        split: option.splits)

lemma Kino_error_instance:
  "Kino_instance (snd (Kino_error this err context w)) = Kino_instance w"
proof (cases "Kino_instance w = None")
  case True
  then show ?thesis by (simp add: Kino_error_def)
next
  case False
  then show ?thesis by (simp add: Kino_error_eq split: option.splits)
qed

lemma run_listeners_instance:
  "Kino_instance (snd (run_listeners ls v w)) = Kino_instance w"
proof (induction ls arbitrary: w)
  case Nil
  show ?case by simp
next
  case (Cons l ls)
  have step: "Kino_instance (snd (run_listener l v w)) = Kino_instance w"
    by (cases l) (simp_all add: Kino_static_error_def Kino_error_instance split: option.splits)
  show ?case
  proof (cases "run_listener l v w")
    case (Pair r w')
    with step have "Kino_instance w' = Kino_instance w" by simp
    with Pair Cons.IH [of w'] show ?thesis by (cases r) simp_all
  qed
qed

lemma exec_keeps_instance:
  assumes "Kino_instance w \<noteq> None"
  shows "Kino_instance (snd (exec c w)) = Kino_instance w"
proof (cases c)
  case (Init config)
  with assms show ?thesis by (simp add: Kino_init_def)
next
  case (Log r es)
  then show ?thesis
    by (cases r) (simp_all add: Kino_static_log_def Kino_log_def split: option.splits)
next
  case (Info r es)
  then show ?thesis
    by (cases r) (simp_all add: Kino_static_info_def Kino_info_def split: option.splits)
next
  case (Debug r es)
  then show ?thesis
    by (cases r) (simp_all add: Kino_static_debug_def Kino_debug_def split: option.splits)
next
  case (Success r es)
  then show ?thesis
    by (cases r) (simp_all add: Kino_static_success_def Kino_success_def split: option.splits)
next
  case (Warn r es)
  then show ?thesis
    by (cases r) (simp_all add: Kino_static_warn_def Kino_warn_def split: option.splits)
next
  case (Error r v ctx)
  then show ?thesis
    by (cases r) (simp_all add: Kino_static_error_def Kino_error_instance split: option.splits)
next
  case (Trace r uid ctx)
  then show ?thesis
    by (cases r)
       (simp_all add: Kino_static_trace_def Kino_trace_def discard_def split: option.splits)
next
  case (Invoke k uid ctx v)
  then show ?thesis by (simp add: trace_callback_def Kino_error_instance)
next
  case (Emit ev v)
  then show ?thesis by (simp add: process_emit_def run_listeners_instance)
qed

lemma run_keeps_instance:
  "Kino_instance w \<noteq> None \<Longrightarrow> Kino_instance (run cs w) = Kino_instance w"
proof (induction cs arbitrary: w)
  case Nil
  show ?case by simp
next
  case (Cons c cs)
  from Cons.prems have "Kino_instance (snd (exec c w)) = Kino_instance w"
    by (rule exec_keeps_instance)
  with Cons show ?case by simp
qed

lemma Kino_init_fresh:
  "Kino_instance w = None \<Longrightarrow>
     fst (Kino_init config w) = Inr () \<and> Kino_instance (snd (Kino_init config w)) \<noteq> None"
  by (simp add: Kino_init_def Let_def process_on_def Sentry_init_def split: option.splits)

lemma initialized_world_eq:
  "initialized_world =
     \<lparr>Kino_instance = Some \<lparr>module = ''GLOBAL''\<rparr>, Kino_locale = ''en-US'', sentry_client = None,
      sentry_calls = [], console = [], process_listeners = [], toLocaleString = fixed_clock\<rparr>"
  by (simp add: initialized_world_def Kino_init_def empty_config_def process_start_def new_Kino_def)

lemma level_call_eq:
  assumes "Kino_instance w = Some g" and "(m, L) \<in> set level_methods"
  shows "exec (m r entries) w = Kino_output (this_of r g) L entries w"
  using assms
  by (cases r)
     (auto simp: level_methods_def Kino_static_log_def Kino_log_def Kino_static_info_def
        Kino_info_def Kino_static_debug_def Kino_debug_def Kino_static_success_def
        Kino_success_def Kino_static_warn_def Kino_warn_def)

lemma error_call_eq:
  assumes "Kino_instance w = Some g"
  shows "exec (Error r v context) w = Kino_error (this_of r g) v context w"
  using assms by (cases r) (simp_all add: Kino_static_error_def)

text \<open>The context \<^verbatim>\<open>error\<close> and \<^verbatim>\<open>trace\<close> build, with the caller's object spelled out.\<close>

lemma with_tag_eq:
  "with_tag context key v =
     \<lparr>tags = Some ((case context of
                       None \<Rightarrow> Map.empty
                     | Some c \<Rightarrow> (case tags c of None \<Rightarrow> Map.empty | Some t \<Rightarrow> t))(key \<mapsto> v)),
      extras = (case context of None \<Rightarrow> None | Some c \<Rightarrow> extras c),
      user = (case context of None \<Rightarrow> None | Some c \<Rightarrow> user c)\<rparr>"
  by (cases "context") (simp_all add: with_tag_def)

lemma worlds_for_runs:
  "Kino_instance initialized_world = Some \<lparr>module = ''GLOBAL''\<rparr>"
  "toLocaleString initialized_world (Kino_locale initialized_world) =
     Some ''11/02/2026, 09:30:00 AM''"
  "Kino_instance bad_locale_world = Some \<lparr>module = ''GLOBAL''\<rparr>"
  "toLocaleString bad_locale_world (Kino_locale bad_locale_world) = None"
  "Sentry_getClient bad_locale_world \<noteq> None"
  by (simp_all add: initialized_world_def bad_locale_world_def Kino_init_def empty_config_def
        process_start_def new_Kino_def fixed_clock_def Sentry_init_def Sentry_getClient_def)

subsection \<open>Initialisation happens once\<close>

text \<open>
  Claim C2. \<^verbatim>\<open>init\<close> succeeds at most once per process. From a world in which the class
  is not initialised, \<^verbatim>\<open>init\<close> returns; after it, whatever calls the host makes (level
  methods, \<^verbatim>\<open>error\<close>, \<^verbatim>\<open>trace\<close>, callbacks, process events, further \<^verbatim>\<open>init\<close> attempts),
  the default instance stays set, and every later \<^verbatim>\<open>init\<close>, with any configuration,
  throws \<^verbatim>\<open>Error('Logger already initialized')\<close> and changes nothing.
\<close>

theorem init_at_most_once:
  assumes "Kino_instance w = None"
  shows "fst (Kino_init c1 w) = Inr () \<and>
         Kino_instance (run cs (snd (Kino_init c1 w))) \<noteq> None \<and>
         Kino_init c2 (run cs (snd (Kino_init c1 w))) =
           (Inl (JsError ''Logger already initialized''), run cs (snd (Kino_init c1 w)))"
proof -
  let ?w1 = "snd (Kino_init c1 w)"
  from assms have ok: "fst (Kino_init c1 w) = Inr ()" and set: "Kino_instance ?w1 \<noteq> None"
    using Kino_init_fresh [of w c1] by simp_all
  from set have later: "Kino_instance (run cs ?w1) \<noteq> None"
    by (simp add: run_keeps_instance)
  then have "Kino_init c2 (run cs ?w1) =
      (Inl (JsError ''Logger already initialized''), run cs ?w1)"
    by (simp add: Kino_init_def)
  with ok later show ?thesis by simp
qed

theorem init_at_most_once_witness:
  "Kino_instance (process_start fixed_clock) = None \<and>
   fst (Kino_init empty_config (process_start fixed_clock)) = Inr () \<and>
   fst (Kino_init (empty_config\<lparr>locale_option := Some ''fr-FR''\<rparr>)
          (run [Log Static [JStr ''a''], Init empty_config]
             (snd (Kino_init empty_config (process_start fixed_clock))))) =
     Inl (JsError ''Logger already initialized'')"
proof -
  have h: "Kino_instance (process_start fixed_clock) = None"
    by (simp add: process_start_def)
  from init_at_most_once [OF h, of empty_config "[Log Static [JStr ''a''], Init empty_config]"
      "empty_config\<lparr>locale_option := Some ''fr-FR''\<rparr>"] h
  show ?thesis by simp
qed

subsection \<open>Calls before initialisation\<close>

text \<open>
  Thirteen of the fourteen logging methods start with the guard
  \<^verbatim>\<open>if (!Kino.instance) throw new Error('Logger not initialized')\<close>.
\<close>

lemma guarded_methods_before_init:
  assumes "Kino_instance w = None"
  shows "Kino_log k es w = (Inl not_initialized, w)"
    and "Kino_info k es w = (Inl not_initialized, w)"
    and "Kino_static_info es w = (Inl not_initialized, w)"
    and "Kino_debug k es w = (Inl not_initialized, w)"
    and "Kino_static_debug es w = (Inl not_initialized, w)"
    and "Kino_success k es w = (Inl not_initialized, w)"
    and "Kino_static_success es w = (Inl not_initialized, w)"
    and "Kino_warn k es w = (Inl not_initialized, w)"
    and "Kino_static_warn es w = (Inl not_initialized, w)"
    and "Kino_error k v context w = (Inl not_initialized, w)"
    and "Kino_static_error v context w = (Inl not_initialized, w)"
    and "Kino_trace k uid context w = (Inl not_initialized, w)"
    and "Kino_static_trace uid w = (Inl not_initialized, w)"
  using assms
  by (simp_all add: Kino_log_def Kino_info_def Kino_static_info_def Kino_debug_def
        Kino_static_debug_def Kino_success_def Kino_static_success_def Kino_warn_def
        Kino_static_warn_def Kino_error_def Kino_static_error_def Kino_trace_def
        Kino_static_trace_def)

text \<open>
  Claim C1. Every logging method, instance or static, called before \<^verbatim>\<open>init\<close> fails with
  \<^verbatim>\<open>Error('Logger not initialized')\<close>. The static \<^verbatim>\<open>log\<close> is the one method without the
  guard: at process start it throws the \<^verbatim>\<open>TypeError\<close> of reading \<^verbatim>\<open>log\<close> on \<^verbatim>\<open>undefined\<close>,
  not the error of the claim.
\<close>

theorem static_log_before_init:
  "Kino_static_log entries (process_start clock) =
     (Inl (JsTypeError ''Cannot read properties of undefined (reading 'log')''),
      process_start clock) \<and>
   fst (Kino_static_log entries (process_start clock)) \<noteq> Inl (JsError ''Logger not initialized'')"
  by (simp add: Kino_static_log_def process_start_def)

subsection \<open>error\<close>

text \<open>
  Claim C3, as amended. On an initialised logger with label \<open>M\<close> whose stored locale the
  host's date formatter accepts, \<^verbatim>\<open>error(V, context?)\<close> (instance or static; the static
  form runs on the default instance) returns, makes exactly one \<^verbatim>\<open>console.error\<close> call
  (prefix with \<open>M\<close> and the \<^verbatim>\<open>ERROR\<close> tag), and calls \<^verbatim>\<open>captureException\<close> exactly once if
  \<^verbatim>\<open>Sentry.getClient()\<close> gives a client and not at all otherwise; the call carries \<open>V\<close>
  and a context whose tags are the caller's tags with \<^verbatim>\<open>module\<close> set to \<open>M\<close>, and whose
  extras and user are the caller's. When the formatter rejects the stored locale, the
  call throws the formatter's \<^verbatim>\<open>RangeError\<close> and neither writes nor captures.
\<close>

theorem error_emits_and_captures:
  assumes "Kino_instance w = Some g"
  shows "(\<forall>date. toLocaleString w (Kino_locale w) = Some date \<longrightarrow>
            exec (Error r v context) w =
              (Inr (),
               w\<lparr>console := console w @
                    [\<lparr>call_writer = console_error,
                      call_prefix = Styled red
                        (''['' @ date @ '' - '' @ module (this_of r g) @ '' - ERROR]''),
                      call_text = render v\<rparr>],
                 sentry_calls := sentry_calls w @
                    (if Sentry_getClient w \<noteq> None
                     then [Sentry_captureException_call v
                             \<lparr>tags = Some ((case context of
                                               None \<Rightarrow> Map.empty
                                             | Some c \<Rightarrow>
                                                 (case tags c of
                                                    None \<Rightarrow> Map.empty
                                                  | Some t \<Rightarrow> t))
                                            (''module'' \<mapsto> module (this_of r g))),
                              extras = (case context of None \<Rightarrow> None | Some c \<Rightarrow> extras c),
                              user = (case context of None \<Rightarrow> None | Some c \<Rightarrow> user c)\<rparr>]
                     else [])\<rparr>)) \<and>
         (toLocaleString w (Kino_locale w) = None \<longrightarrow>
            exec (Error r v context) w = (Inl invalid_locale, w))"
proof -
  have init: "Kino_instance w \<noteq> None" using assms by simp
  have run: "exec (Error r v context) w = Kino_error (this_of r g) v context w"
    using assms by (rule error_call_eq)
  show ?thesis
    by (simp add: run Kino_error_eq [OF init] with_tag_eq)
qed

theorem error_emits_and_captures_witness:
  "Kino_instance (initialized_world\<lparr>sentry_client := Some no_options\<rparr>) =
     Some \<lparr>module = ''GLOBAL''\<rparr> \<and>
   exec (Error (Instance \<lparr>module = ''Db''\<rparr>) (JErrorObj ''boom'')
           (Some \<lparr>tags = Some [''shard'' \<mapsto> ''7''],
                  extras = Some [(''attempt'', JNum 2)],
                  user = Some \<lparr>user_id = ''42'', username = ''ada''\<rparr>\<rparr>))
        (initialized_world\<lparr>sentry_client := Some no_options\<rparr>) =
     (Inr (),
      initialized_world
        \<lparr>sentry_client := Some no_options,
         console :=
           [\<lparr>call_writer = console_error,
             call_prefix = Styled red ''[11/02/2026, 09:30:00 AM - Db - ERROR]'',
             call_text = Inspect (JErrorObj ''boom'') 3 True\<rparr>],
         sentry_calls :=
           [Sentry_captureException_call (JErrorObj ''boom'')
              \<lparr>tags = Some [''shard'' \<mapsto> ''7'', ''module'' \<mapsto> ''Db''],
               extras = Some [(''attempt'', JNum 2)],
               user = Some \<lparr>user_id = ''42'', username = ''ada''\<rparr>\<rparr>]\<rparr>) \<and>
   sentry_calls (snd (exec (Error Static (JStr ''boom'') None) initialized_world)) = [] \<and>
   console (snd (exec (Error Static (JStr ''boom'') None) initialized_world)) =
     [\<lparr>call_writer = console_error,
       call_prefix = Styled red ''[11/02/2026, 09:30:00 AM - GLOBAL - ERROR]'',
       call_text = AsIs ''boom''\<rparr>]"
proof -
  let ?w = "initialized_world\<lparr>sentry_client := Some no_options\<rparr>"
  have h1: "Kino_instance ?w = Some \<lparr>module = ''GLOBAL''\<rparr>"
    and h2: "Kino_instance initialized_world = Some \<lparr>module = ''GLOBAL''\<rparr>"
    by (simp_all add: worlds_for_runs)
  have d1: "toLocaleString ?w (Kino_locale ?w) = Some ''11/02/2026, 09:30:00 AM''"
    using worlds_for_runs(2) by simp
  have d2: "toLocaleString initialized_world (Kino_locale initialized_world) =
      Some ''11/02/2026, 09:30:00 AM''"
    by (rule worlds_for_runs(2))
  have c: "console initialized_world = []" and s: "sentry_calls initialized_world = []"
    and n: "Sentry_getClient initialized_world = None"
    by (simp_all add: initialized_world_eq Sentry_getClient_def)
  show ?thesis
    using h1 d1 d2 c s n
      error_emits_and_captures [OF h1, of "Instance \<lparr>module = ''Db''\<rparr>" "JErrorObj ''boom''"
        "Some \<lparr>tags = Some [''shard'' \<mapsto> ''7''], extras = Some [(''attempt'', JNum 2)],
               user = Some \<lparr>user_id = ''42'', username = ''ada''\<rparr>\<rparr>"]
      error_emits_and_captures [OF h2, of Static "JStr ''boom''" None]
    by (simp add: render_def Sentry_getClient_def)
qed

text \<open>
  The claim as it stands fails on an initialised logger with an active client: after
  \<^verbatim>\<open>Kino.init({locale: 'en_US', sentry: {}})\<close> the static \<^verbatim>\<open>error\<close> throws in \<^verbatim>\<open>formatDate\<close>,
  writes no line and captures nothing.
\<close>

theorem error_invalid_locale_counterexample:
  "Kino_instance bad_locale_world = Some \<lparr>module = ''GLOBAL''\<rparr> \<and>
   Sentry_getClient bad_locale_world \<noteq> None \<and>
   exec (Error Static (JErrorObj ''boom'') None) bad_locale_world =
     (Inl (JsRangeError ''Incorrect locale information provided''), bad_locale_world) \<and>
   console (snd (exec (Error Static (JErrorObj ''boom'') None) bad_locale_world)) = [] \<and>
   sentry_calls (snd (exec (Error Static (JErrorObj ''boom'') None) bad_locale_world)) =
     sentry_calls bad_locale_world"
proof -
  have run: "Kino_static_error (JErrorObj ''boom'') None bad_locale_world =
      (Inl invalid_locale, bad_locale_world)"
    using worlds_for_runs(3,4) by (simp add: Kino_static_error_def Kino_error_eq)
  have quiet: "console bad_locale_world = []"
    by (simp add: bad_locale_world_def Kino_init_def empty_config_def process_start_def
          Sentry_init_def)
  show ?thesis
    using worlds_for_runs(3,5) by (simp add: run quiet invalid_locale_def)
qed

subsection \<open>trace\<close>

text \<open>
  Claim C4. On an initialised logger, \<^verbatim>\<open>trace(uid, context?)\<close> returns a function and
  leaves the world as it was. Calling the function on \<open>V\<close> in any world is calling
  \<^verbatim>\<open>error\<close> on \<open>V\<close> with the caller's context and the tag \<^verbatim>\<open>trace_uid: uid\<close> added; with no
  context that is \<^verbatim>\<open>error(V, {tags: {trace_uid: uid}})\<close>. The function the static
  \<^verbatim>\<open>trace(uid)\<close> returns is the static \<^verbatim>\<open>error\<close> with that context, as long as the default
  instance is the one it was built on.
\<close>

theorem trace_defers_error:
  assumes "Kino_instance w = Some g"
  shows "(\<exists>f. Kino_trace k uid context w = (Inr f, w) \<and>
            (\<forall>v w'. f v w' =
               Kino_error k v
                 (Some \<lparr>tags = Some ((context_tags context)(''trace_uid'' \<mapsto> uid)),
                        extras = context_extras context,
                        user = context_user context\<rparr>) w')) \<and>
         (\<exists>f. Kino_trace k uid None w = (Inr f, w) \<and>
            (\<forall>v w'. f v w' =
               Kino_error k v
                 (Some \<lparr>tags = Some [''trace_uid'' \<mapsto> uid], extras = None, user = None\<rparr>) w')) \<and>
         (\<exists>f. Kino_static_trace uid w = (Inr f, w) \<and>
            (\<forall>v w'. Kino_instance w' = Some g \<longrightarrow>
               f v w' =
               Kino_static_error v
                 (Some \<lparr>tags = Some [''trace_uid'' \<mapsto> uid], extras = None, user = None\<rparr>) w'))"
  using assms
  by (simp add: Kino_trace_def Kino_static_trace_def Kino_static_error_def trace_callback_def
        with_tag_def)

theorem trace_defers_error_witness:
  "Kino_instance initialized_world = Some \<lparr>module = ''GLOBAL''\<rparr> \<and>
   (\<exists>f. Kino_trace \<lparr>module = ''Db''\<rparr> ''req-7'' None initialized_world = (Inr f, initialized_world) \<and>
        f (JErrorObj ''boom'') initialized_world =
          Kino_error \<lparr>module = ''Db''\<rparr> (JErrorObj ''boom'')
            (Some \<lparr>tags = Some [''trace_uid'' \<mapsto> ''req-7''], extras = None, user = None\<rparr>)
            initialized_world) \<and>
   (\<exists>f. Kino_static_trace ''req-7'' initialized_world = (Inr f, initialized_world) \<and>
        f (JErrorObj ''boom'') initialized_world =
          Kino_static_error (JErrorObj ''boom'')
            (Some \<lparr>tags = Some [''trace_uid'' \<mapsto> ''req-7''], extras = None, user = None\<rparr>)
            initialized_world)"
proof -
  have h: "Kino_instance initialized_world = Some \<lparr>module = ''GLOBAL''\<rparr>"
    by (simp add: initialized_world_eq)
  from trace_defers_error [OF h, of "\<lparr>module = ''Db''\<rparr>" "''req-7''" None] h
  show ?thesis by blast
qed

subsection \<open>The level methods\<close>

text \<open>
  Claim C5, as amended. For each of \<^verbatim>\<open>log\<close>, \<^verbatim>\<open>info\<close>, \<^verbatim>\<open>debug\<close>, \<^verbatim>\<open>success\<close>, \<^verbatim>\<open>warn\<close>,
  instance or static, on an initialised logger with label \<open>M\<close> whose stored locale the
  host's date formatter accepts: the call returns and makes exactly one console call
  per value, each with a prefix that contains \<open>M\<close> and the level's tag (\<^verbatim>\<open>LOG\<close>, \<^verbatim>\<open>INFO\<close>,
  \<^verbatim>\<open>DEBUG\<close>, \<^verbatim>\<open>SUCCESS\<close>, \<^verbatim>\<open>WARN\<close>). When the formatter rejects the stored locale, the call
  throws the formatter's \<^verbatim>\<open>RangeError\<close> and writes nothing. Either way nothing is sent
  to the error-tracking client.
\<close>

theorem level_methods_emit:
  assumes "Kino_instance w = Some g" and "(m, L) \<in> set level_methods"
  shows "(\<forall>date. toLocaleString w (Kino_locale w) = Some date \<longrightarrow>
            (\<exists>lines.
               exec (m r entries) w = (Inr (), w\<lparr>console := console w @ lines\<rparr>) \<and>
               length lines = length entries \<and>
               (\<forall>l \<in> set lines.
                  sublist (module (this_of r g)) (styled_text (call_prefix l)) \<and>
                  sublist (LEVELS L) (styled_text (call_prefix l))))) \<and>
         (toLocaleString w (Kino_locale w) = None \<longrightarrow>
            exec (m r entries) w = (Inl invalid_locale, w)) \<and>
         (m, LEVELS L) \<in> {(Log, ''LOG''), (Info, ''INFO''), (Debug, ''DEBUG''),
                           (Success, ''SUCCESS''), (Warn, ''WARN'')} \<and>
         sentry_calls (snd (exec (m r entries) w)) = sentry_calls w \<and>
         sentry_client (snd (exec (m r entries) w)) = sentry_client w"
proof -
  have run: "exec (m r entries) w = Kino_output (this_of r g) L entries w"
    using assms by (rule level_call_eq)
  have good: "\<forall>date. toLocaleString w (Kino_locale w) = Some date \<longrightarrow>
            (\<exists>lines.
               exec (m r entries) w = (Inr (), w\<lparr>console := console w @ lines\<rparr>) \<and>
               length lines = length entries \<and>
               (\<forall>l \<in> set lines.
                  sublist (module (this_of r g)) (styled_text (call_prefix l)) \<and>
                  sublist (LEVELS L) (styled_text (call_prefix l))))"
  proof (intro allI impI)
    fix date assume d: "toLocaleString w (Kino_locale w) = Some date"
    let ?pre = "Styled (COLORS L)
        (''['' @ date @ '' - '' @ module (this_of r g) @ '' - '' @ LEVELS L @ '']'')"
    let ?lines = "map (\<lambda>entry. \<lparr>call_writer = writer_of L, call_prefix = ?pre,
                                  call_text = render entry\<rparr>) entries"
    have eq: "exec (m r entries) w = (Inr (), w\<lparr>console := console w @ ?lines\<rparr>)"
      by (simp add: run Kino_output_eq d)
    have M: "sublist (module (this_of r g)) (styled_text ?pre)"
      using sublist_appendI [of "module (this_of r g)" "''['' @ date @ '' - ''"
          "'' - '' @ LEVELS L @ '']''"]
      by simp
    have T: "sublist (LEVELS L) (styled_text ?pre)"
      using sublist_appendI [of "LEVELS L"
          "''['' @ date @ '' - '' @ module (this_of r g) @ '' - ''" "'']''"]
      by simp
    have len: "length ?lines = length entries" by simp
    have each: "\<forall>l \<in> set ?lines.
        sublist (module (this_of r g)) (styled_text (call_prefix l)) \<and>
        sublist (LEVELS L) (styled_text (call_prefix l))"
      using M T by simp
    show "\<exists>lines.
               exec (m r entries) w = (Inr (), w\<lparr>console := console w @ lines\<rparr>) \<and>
               length lines = length entries \<and>
               (\<forall>l \<in> set lines.
                  sublist (module (this_of r g)) (styled_text (call_prefix l)) \<and>
                  sublist (LEVELS L) (styled_text (call_prefix l)))"
      by (intro exI [of _ ?lines] conjI eq len each)
  qed
  have bad: "toLocaleString w (Kino_locale w) = None \<longrightarrow>
            exec (m r entries) w = (Inl invalid_locale, w)"
    by (simp add: run Kino_output_eq)
  have tag: "(m, LEVELS L) \<in> {(Log, ''LOG''), (Info, ''INFO''), (Debug, ''DEBUG''),
                             (Success, ''SUCCESS''), (Warn, ''WARN'')}"
    using assms(2) by (auto simp: level_methods_def)
  have calls: "sentry_calls (snd (exec (m r entries) w)) = sentry_calls w"
    by (simp add: run Kino_output_eq split: option.splits)
  have client: "sentry_client (snd (exec (m r entries) w)) = sentry_client w"
    by (simp add: run Kino_output_eq split: option.splits)
  show ?thesis by (intro conjI good bad tag calls client)
qed

theorem level_methods_emit_witness:
  "Kino_instance initialized_world = Some \<lparr>module = ''GLOBAL''\<rparr> \<and>
   (Warn, Level_warn) \<in> set level_methods \<and>
   toLocaleString initialized_world (Kino_locale initialized_world) =
     Some ''11/02/2026, 09:30:00 AM'' \<and>
   (\<exists>lines. exec (Warn Static [JStr ''disk'', JNum 90]) initialized_world =
              (Inr (), initialized_world\<lparr>console := console initialized_world @ lines\<rparr>) \<and>
            length lines = 2 \<and>
            list_all (\<lambda>l. sublist ''GLOBAL'' (styled_text (call_prefix l)) \<and>
                          sublist ''WARN'' (styled_text (call_prefix l))) lines) \<and>
   sentry_calls (snd (exec (Warn Static [JStr ''disk'', JNum 90]) initialized_world)) = []"
proof -
  have h: "Kino_instance initialized_world = Some \<lparr>module = ''GLOBAL''\<rparr>"
    by (rule worlds_for_runs(1))
  have m: "(Warn, Level_warn) \<in> set level_methods" by (simp add: level_methods_def)
  have d: "toLocaleString initialized_world (Kino_locale initialized_world) =
      Some ''11/02/2026, 09:30:00 AM''"
    by (rule worlds_for_runs(2))
  have s: "sentry_calls initialized_world = []" by (simp add: initialized_world_eq)
  from level_methods_emit [OF h m, of Static "[JStr ''disk'', JNum 90]"] h m d s
  show ?thesis by (auto simp: list_all_iff)
qed

text \<open>
  The claim as it stands fails on an initialised logger: after
  \<^verbatim>\<open>Kino.init({locale: 'en_US', sentry: {}})\<close> the static \<^verbatim>\<open>info('x')\<close> throws in \<^verbatim>\<open>formatDate\<close>
  and writes no line.
\<close>

theorem level_invalid_locale_counterexample:
  "Kino_instance bad_locale_world = Some \<lparr>module = ''GLOBAL''\<rparr> \<and>
   exec (Info Static [JStr ''x'']) bad_locale_world =
     (Inl (JsRangeError ''Incorrect locale information provided''), bad_locale_world) \<and>
   console (snd (exec (Info Static [JStr ''x'']) bad_locale_world)) = []"
proof -
  have run: "Kino_static_info [JStr ''x''] bad_locale_world =
      (Inl invalid_locale, bad_locale_world)"
    using worlds_for_runs(3,4) by (simp add: Kino_static_info_def Kino_info_def Kino_output_eq)
  have quiet: "console bad_locale_world = []"
    by (simp add: bad_locale_world_def Kino_init_def empty_config_def process_start_def
          Sentry_init_def)
  show ?thesis
    using worlds_for_runs(3) by (simp add: run quiet invalid_locale_def)
qed

subsection \<open>Rendering of entries\<close>

lemma exec_by_receiver:
  "exec (Log r es) w = (case r of Static \<Rightarrow> Kino_static_log es w | Instance k \<Rightarrow> Kino_log k es w)"
  "exec (Info r es) w = (case r of Static \<Rightarrow> Kino_static_info es w | Instance k \<Rightarrow> Kino_info k es w)"
  "exec (Debug r es) w =
     (case r of Static \<Rightarrow> Kino_static_debug es w | Instance k \<Rightarrow> Kino_debug k es w)"
  "exec (Success r es) w =
     (case r of Static \<Rightarrow> Kino_static_success es w | Instance k \<Rightarrow> Kino_success k es w)"
  "exec (Warn r es) w = (case r of Static \<Rightarrow> Kino_static_warn es w | Instance k \<Rightarrow> Kino_warn k es w)"
  "exec (Error r v ctx) w =
     (case r of Static \<Rightarrow> Kino_static_error v ctx w | Instance k \<Rightarrow> Kino_error k v ctx w)"
  by (cases r; simp)+

lemmas logging_method_defs =
  Kino_static_log_def Kino_log_def Kino_static_info_def Kino_info_def Kino_static_debug_def
  Kino_debug_def Kino_static_success_def Kino_success_def Kino_static_warn_def Kino_warn_def
  Kino_static_error_def trace_callback_def

lemma logging_uninitialized:
  assumes "Kino_instance w = None" and "logged_entries c = Some entries"
  shows "snd (exec c w) = w \<and> fst (exec c w) \<noteq> Inr ()"
  using assms
  by (cases c)
     (auto simp: exec_by_receiver logging_method_defs Kino_error_def split: receiver.splits)

lemma logging_bad_locale:
  assumes "Kino_instance w = Some g" and "toLocaleString w (Kino_locale w) = None"
    and "logged_entries c = Some entries"
  shows "exec c w = (Inl invalid_locale, w)"
  using assms
  by (cases c)
     (auto simp: exec_by_receiver logging_method_defs Kino_error_eq Kino_output_eq
        split: receiver.splits)

lemma logging_good_locale:
  assumes "Kino_instance w = Some g" and "toLocaleString w (Kino_locale w) = Some date"
    and "logged_entries c = Some entries"
  shows "fst (exec c w) = Inr () \<and>
         (\<exists>lines. console (snd (exec c w)) = console w @ lines \<and>
                  map call_text lines = map render entries)"
  using assms
  by (cases c)
     (auto simp: exec_by_receiver logging_method_defs Kino_error_eq Kino_output_eq comp_def
        split: receiver.splits)

text \<open>
  Claim C9. For every logging call (the five level methods and \<^verbatim>\<open>error\<close>, instance or
  static, and a callback of \<^verbatim>\<open>trace\<close>), in every world: what the call writes is, in order,
  the rendering of the values passed, a string as it is and any other value through
  \<^verbatim>\<open>util.inspect\<close> with depth 3. The call writes when it returns, which it does on an
  initialised logger whose stored locale the date formatter accepts; a call that throws
  has written nothing.
\<close>

theorem entries_rendered:
  assumes "logged_entries c = Some entries"
  shows "(\<exists>lines. console (snd (exec c w)) = console w @ lines \<and>
                  (fst (exec c w) = Inr () \<longrightarrow> map call_text lines = map render entries) \<and>
                  (fst (exec c w) \<noteq> Inr () \<longrightarrow> lines = [])) \<and>
         (Kino_instance w \<noteq> None \<and> toLocaleString w (Kino_locale w) \<noteq> None \<longrightarrow>
            fst (exec c w) = Inr ()) \<and>
         (\<forall>s. render (JStr s) = AsIs s) \<and>
         (\<forall>v. \<not> typeof_is_string v \<longrightarrow> render v = Inspect v 3 True)"
proof -
  have written: "\<exists>lines. console (snd (exec c w)) = console w @ lines \<and>
                  (fst (exec c w) = Inr () \<longrightarrow> map call_text lines = map render entries) \<and>
                  (fst (exec c w) \<noteq> Inr () \<longrightarrow> lines = [])"
  proof (cases "Kino_instance w")
    case None
    from logging_uninitialized [OF None assms]
    have "console (snd (exec c w)) = console w @ []" and "fst (exec c w) \<noteq> Inr ()"
      by simp_all
    then show ?thesis by blast
  next
    case (Some g)
    show ?thesis
    proof (cases "toLocaleString w (Kino_locale w)")
      case None
      from logging_bad_locale [OF Some None assms]
      have "console (snd (exec c w)) = console w @ []" and "fst (exec c w) \<noteq> Inr ()"
        by simp_all
      then show ?thesis by blast
    next
      case (Some date)
      from logging_good_locale [OF \<open>Kino_instance w = Some g\<close> Some assms]
      show ?thesis by auto
    qed
  qed
  have returns: "Kino_instance w \<noteq> None \<and> toLocaleString w (Kino_locale w) \<noteq> None \<longrightarrow>
            fst (exec c w) = Inr ()"
    using logging_good_locale [OF _ _ assms, of w] by auto
  have str: "\<forall>s. render (JStr s) = AsIs s" by (simp add: render_def)
  have other: "\<forall>v. \<not> typeof_is_string v \<longrightarrow> render v = Inspect v 3 True"
  proof (intro allI impI)
    fix v assume "\<not> typeof_is_string v"
    then show "render v = Inspect v 3 True" by (cases v) (simp_all add: render_def)
  qed
  show ?thesis by (intro conjI written returns str other)
qed

theorem entries_rendered_witness:
  "logged_entries (Info Static [JStr ''up'', JNum 3, JObj [(''a'', JStr ''b'')]]) =
     Some [JStr ''up'', JNum 3, JObj [(''a'', JStr ''b'')]] \<and>
   fst (exec (Info Static [JStr ''up'', JNum 3, JObj [(''a'', JStr ''b'')]]) initialized_world) =
     Inr () \<and>
   (\<exists>lines. console (snd (exec (Info Static [JStr ''up'', JNum 3, JObj [(''a'', JStr ''b'')]])
                            initialized_world)) = lines \<and>
            map call_text lines =
              [AsIs ''up'', Inspect (JNum 3) 3 True, Inspect (JObj [(''a'', JStr ''b'')]) 3 True])"
proof -
  let ?c = "Info Static [JStr ''up'', JNum 3, JObj [(''a'', JStr ''b'')]]"
  have l: "logged_entries ?c = Some [JStr ''up'', JNum 3, JObj [(''a'', JStr ''b'')]]"
    by simp
  have i: "Kino_instance initialized_world \<noteq> None"
    and d: "toLocaleString initialized_world (Kino_locale initialized_world) \<noteq> None"
    by (simp_all add: worlds_for_runs)
  have c: "console initialized_world = []" by (simp add: initialized_world_eq)
  note inst = entries_rendered [OF l, of initialized_world]
  from inst have r0: "Kino_instance initialized_world \<noteq> None \<and>
      toLocaleString initialized_world (Kino_locale initialized_world) \<noteq> None \<longrightarrow>
      fst (exec ?c initialized_world) = Inr ()"
    by (rule conjunct2 [THEN conjunct1])
  have ret: "fst (exec ?c initialized_world) = Inr ()"
    by (rule mp [OF r0 conjI [OF i d]])
  from inst have "\<exists>lines.
      console (snd (exec ?c initialized_world)) = console initialized_world @ lines \<and>
      (fst (exec ?c initialized_world) = Inr () \<longrightarrow>
         map call_text lines = map render [JStr ''up'', JNum 3, JObj [(''a'', JStr ''b'')]]) \<and>
      (fst (exec ?c initialized_world) \<noteq> Inr () \<longrightarrow> lines = [])"
    by (rule conjunct1)
  then obtain lines where ab:
    "console (snd (exec ?c initialized_world)) = console initialized_world @ lines \<and>
     (fst (exec ?c initialized_world) = Inr () \<longrightarrow>
        map call_text lines = map render [JStr ''up'', JNum 3, JObj [(''a'', JStr ''b'')]]) \<and>
     (fst (exec ?c initialized_world) \<noteq> Inr () \<longrightarrow> lines = [])" ..
  from ab have
    a: "console (snd (exec ?c initialized_world)) = console initialized_world @ lines"
    by (rule conjunct1)
  from ab have
    b: "fst (exec ?c initialized_world) = Inr () \<longrightarrow>
        map call_text lines = map render [JStr ''up'', JNum 3, JObj [(''a'', JStr ''b'')]]"
    by (rule conjunct2 [THEN conjunct1])
  have a': "console (snd (exec ?c initialized_world)) = lines"
    by (simp only: a c append_Nil)
  have b': "map call_text lines =
      [AsIs ''up'', Inspect (JNum 3) 3 True, Inspect (JObj [(''a'', JStr ''b'')]) 3 True]"
    using mp [OF b ret] by (simp add: render_def)
  show ?thesis
    by (intro conjI l ret exI [of _ lines] a' b')
qed

subsection \<open>Precedence of the tags the facade adds\<close>

text \<open>
  Claim C10. In the context forwarded to the client, \<^verbatim>\<open>error\<close> sets \<^verbatim>\<open>module\<close> to the
  instance's label over any \<^verbatim>\<open>module\<close> tag of the caller, and the callback of
  \<^verbatim>\<open>trace(uid)\<close> sets \<^verbatim>\<open>trace_uid\<close> to \<open>uid\<close> over any \<^verbatim>\<open>trace_uid\<close> tag of the caller; every
  other tag of the caller is forwarded as it is. A context is forwarded when the logger
  is initialised, the SDK has a client and the date formatter accepts the stored locale;
  when the formatter rejects it, the call throws before anything is forwarded.
\<close>

theorem facade_tags_take_precedence:
  assumes "Kino_instance w = Some g" and "Sentry_getClient w \<noteq> None"
  shows "(\<forall>date. toLocaleString w (Kino_locale w) = Some date \<longrightarrow>
            (\<exists>t. sentry_calls (snd (exec (Error r v context) w)) =
                    sentry_calls w @
                      [Sentry_captureException_call v
                         \<lparr>tags = Some t,
                          extras = (case context of None \<Rightarrow> None | Some c \<Rightarrow> extras c),
                          user = (case context of None \<Rightarrow> None | Some c \<Rightarrow> user c)\<rparr>] \<and>
                  t ''module'' = Some (module (this_of r g)) \<and>
                  (\<forall>key. key \<noteq> ''module'' \<longrightarrow>
                     t key =
                       (case context of
                          None \<Rightarrow> None
                        | Some c \<Rightarrow> (case tags c of None \<Rightarrow> None | Some ct \<Rightarrow> ct key)))) \<and>
            (\<exists>f t. Kino_trace k uid context w = (Inr f, w) \<and>
                  sentry_calls (snd (f v w)) =
                    sentry_calls w @
                      [Sentry_captureException_call v
                         \<lparr>tags = Some t,
                          extras = (case context of None \<Rightarrow> None | Some c \<Rightarrow> extras c),
                          user = (case context of None \<Rightarrow> None | Some c \<Rightarrow> user c)\<rparr>] \<and>
                  t ''trace_uid'' = Some uid \<and>
                  t ''module'' = Some (module k) \<and>
                  (\<forall>key. key \<noteq> ''trace_uid'' \<and> key \<noteq> ''module'' \<longrightarrow>
                     t key =
                       (case context of
                          None \<Rightarrow> None
                        | Some c \<Rightarrow> (case tags c of None \<Rightarrow> None | Some ct \<Rightarrow> ct key))))) \<and>
         (toLocaleString w (Kino_locale w) = None \<longrightarrow>
            sentry_calls (snd (exec (Error r v context) w)) = sentry_calls w \<and>
            (\<exists>f. Kino_trace k uid context w = (Inr f, w) \<and>
                 sentry_calls (snd (f v w)) = sentry_calls w))"
proof -
  have init: "Kino_instance w \<noteq> None" using assms(1) by simp
  let ?caller = "case context of
                   None \<Rightarrow> Map.empty
                 | Some c \<Rightarrow> (case tags c of None \<Rightarrow> Map.empty | Some ct \<Rightarrow> ct)"
  let ?extras = "case context of None \<Rightarrow> None | Some c \<Rightarrow> extras c"
  let ?user = "case context of None \<Rightarrow> None | Some c \<Rightarrow> user c"
  let ?f = "trace_callback k uid context"
  have caller: "\<And>key. ?caller key =
      (case context of
         None \<Rightarrow> None
       | Some c \<Rightarrow> (case tags c of None \<Rightarrow> None | Some ct \<Rightarrow> ct key))"
    by (simp split: option.splits)
  have built: "Kino_trace k uid context w = (Inr ?f, w)"
    using init by (simp add: Kino_trace_def)
  have good: "\<forall>date. toLocaleString w (Kino_locale w) = Some date \<longrightarrow>
            (\<exists>t. sentry_calls (snd (exec (Error r v context) w)) =
                    sentry_calls w @
                      [Sentry_captureException_call v
                         \<lparr>tags = Some t, extras = ?extras, user = ?user\<rparr>] \<and>
                  t ''module'' = Some (module (this_of r g)) \<and>
                  (\<forall>key. key \<noteq> ''module'' \<longrightarrow>
                     t key =
                       (case context of
                          None \<Rightarrow> None
                        | Some c \<Rightarrow> (case tags c of None \<Rightarrow> None | Some ct \<Rightarrow> ct key)))) \<and>
            (\<exists>f t. Kino_trace k uid context w = (Inr f, w) \<and>
                  sentry_calls (snd (f v w)) =
                    sentry_calls w @
                      [Sentry_captureException_call v
                         \<lparr>tags = Some t, extras = ?extras, user = ?user\<rparr>] \<and>
                  t ''trace_uid'' = Some uid \<and>
                  t ''module'' = Some (module k) \<and>
                  (\<forall>key. key \<noteq> ''trace_uid'' \<and> key \<noteq> ''module'' \<longrightarrow>
                     t key =
                       (case context of
                          None \<Rightarrow> None
                        | Some c \<Rightarrow> (case tags c of None \<Rightarrow> None | Some ct \<Rightarrow> ct key))))"
  proof (intro allI impI)
    fix date assume d: "toLocaleString w (Kino_locale w) = Some date"
    let ?t1 = "?caller(''module'' \<mapsto> module (this_of r g))"
    let ?t2 = "?caller(''trace_uid'' \<mapsto> uid, ''module'' \<mapsto> module k)"
    have e1: "sentry_calls (snd (exec (Error r v context) w)) =
          sentry_calls w @
            [Sentry_captureException_call v \<lparr>tags = Some ?t1, extras = ?extras, user = ?user\<rparr>]"
      using assms(2) d
      by (simp add: error_call_eq [OF assms(1)] Kino_error_eq [OF init] with_tag_eq)
    have m1: "?t1 ''module'' = Some (module (this_of r g))" by simp
    have o1: "\<forall>key. key \<noteq> ''module'' \<longrightarrow>
                     ?t1 key =
                       (case context of
                          None \<Rightarrow> None
                        | Some c \<Rightarrow> (case tags c of None \<Rightarrow> None | Some ct \<Rightarrow> ct key))"
      using caller by simp
    have e2: "sentry_calls (snd (?f v w)) =
          sentry_calls w @
            [Sentry_captureException_call v \<lparr>tags = Some ?t2, extras = ?extras, user = ?user\<rparr>]"
      using assms(2) d
      by (simp add: trace_callback_def Kino_error_eq [OF init] with_tag_eq)
    have u2: "?t2 ''trace_uid'' = Some uid" by simp
    have m2: "?t2 ''module'' = Some (module k)" by simp
    have o2: "\<forall>key. key \<noteq> ''trace_uid'' \<and> key \<noteq> ''module'' \<longrightarrow>
                     ?t2 key =
                       (case context of
                          None \<Rightarrow> None
                        | Some c \<Rightarrow> (case tags c of None \<Rightarrow> None | Some ct \<Rightarrow> ct key))"
      using caller by simp
    show "(\<exists>t. sentry_calls (snd (exec (Error r v context) w)) =
                    sentry_calls w @
                      [Sentry_captureException_call v
                         \<lparr>tags = Some t, extras = ?extras, user = ?user\<rparr>] \<and>
                  t ''module'' = Some (module (this_of r g)) \<and>
                  (\<forall>key. key \<noteq> ''module'' \<longrightarrow>
                     t key =
                       (case context of
                          None \<Rightarrow> None
                        | Some c \<Rightarrow> (case tags c of None \<Rightarrow> None | Some ct \<Rightarrow> ct key)))) \<and>
            (\<exists>f t. Kino_trace k uid context w = (Inr f, w) \<and>
                  sentry_calls (snd (f v w)) =
                    sentry_calls w @
                      [Sentry_captureException_call v
                         \<lparr>tags = Some t, extras = ?extras, user = ?user\<rparr>] \<and>
                  t ''trace_uid'' = Some uid \<and>
                  t ''module'' = Some (module k) \<and>
                  (\<forall>key. key \<noteq> ''trace_uid'' \<and> key \<noteq> ''module'' \<longrightarrow>
                     t key =
                       (case context of
                          None \<Rightarrow> None
                        | Some c \<Rightarrow> (case tags c of None \<Rightarrow> None | Some ct \<Rightarrow> ct key))))"
      by (intro conjI exI [of _ ?t1] exI [of _ ?f] exI [of _ ?t2] e1 m1 o1 built e2 u2 m2 o2)
  qed
  have bad: "toLocaleString w (Kino_locale w) = None \<longrightarrow>
            sentry_calls (snd (exec (Error r v context) w)) = sentry_calls w \<and>
            (\<exists>f. Kino_trace k uid context w = (Inr f, w) \<and>
                 sentry_calls (snd (f v w)) = sentry_calls w)"
  proof (intro impI conjI)
    assume n: "toLocaleString w (Kino_locale w) = None"
    show "sentry_calls (snd (exec (Error r v context) w)) = sentry_calls w"
      by (simp add: error_call_eq [OF assms(1)] Kino_error_eq [OF init] n)
    have "sentry_calls (snd (?f v w)) = sentry_calls w"
      by (simp add: trace_callback_def Kino_error_eq [OF init] n)
    with built show "\<exists>f. Kino_trace k uid context w = (Inr f, w) \<and>
                 sentry_calls (snd (f v w)) = sentry_calls w"
      by blast
  qed
  show ?thesis by (intro conjI good bad)
qed

theorem facade_tags_take_precedence_witness:
  "Kino_instance (initialized_world\<lparr>sentry_client := Some no_options\<rparr>) =
     Some \<lparr>module = ''GLOBAL''\<rparr> \<and>
   Sentry_getClient (initialized_world\<lparr>sentry_client := Some no_options\<rparr>) \<noteq> None \<and>
   (\<exists>t. sentry_calls
          (snd (exec (Error (Instance \<lparr>module = ''Db''\<rparr>) (JErrorObj ''boom'')
                  (Some \<lparr>tags = Some [''module'' \<mapsto> ''mine'', ''trace_uid'' \<mapsto> ''old'',
                                      ''shard'' \<mapsto> ''7''],
                         extras = None, user = None\<rparr>))
                (initialized_world\<lparr>sentry_client := Some no_options\<rparr>))) =
          [Sentry_captureException_call (JErrorObj ''boom'')
             \<lparr>tags = Some t, extras = None, user = None\<rparr>] \<and>
        t ''module'' = Some ''Db'' \<and> t ''trace_uid'' = Some ''old'' \<and> t ''shard'' = Some ''7'') \<and>
   (\<exists>f t. Kino_trace \<lparr>module = ''Db''\<rparr> ''req-7''
            (Some \<lparr>tags = Some [''module'' \<mapsto> ''mine'', ''trace_uid'' \<mapsto> ''old'',
                                ''shard'' \<mapsto> ''7''],
                   extras = None, user = None\<rparr>)
            (initialized_world\<lparr>sentry_client := Some no_options\<rparr>) =
            (Inr f, initialized_world\<lparr>sentry_client := Some no_options\<rparr>) \<and>
          sentry_calls (snd (f (JErrorObj ''boom'')
                               (initialized_world\<lparr>sentry_client := Some no_options\<rparr>))) =
            [Sentry_captureException_call (JErrorObj ''boom'')
               \<lparr>tags = Some t, extras = None, user = None\<rparr>] \<and>
          t ''module'' = Some ''Db'' \<and> t ''trace_uid'' = Some ''req-7'' \<and>
          t ''shard'' = Some ''7'')"
proof -
  let ?w = "initialized_world\<lparr>sentry_client := Some no_options\<rparr>"
  let ?ctx = "Some \<lparr>tags = Some [''module'' \<mapsto> ''mine'', ''trace_uid'' \<mapsto> ''old'',
                                 ''shard'' \<mapsto> ''7''],
                    extras = None, user = None\<rparr>"
  have h1: "Kino_instance ?w = Some \<lparr>module = ''GLOBAL''\<rparr>"
    by (simp add: worlds_for_runs)
  have h2: "Sentry_getClient ?w \<noteq> None" by (simp add: Sentry_getClient_def)
  have d: "toLocaleString ?w (Kino_locale ?w) = Some ''11/02/2026, 09:30:00 AM''"
    using worlds_for_runs(2) by simp
  have s: "sentry_calls ?w = []" by (simp add: initialized_world_eq)
  note inst = facade_tags_take_precedence [OF h1 h2, of "Instance \<lparr>module = ''Db''\<rparr>"
      "JErrorObj ''boom''" ?ctx "\<lparr>module = ''Db''\<rparr>" "''req-7''"]
  from inst d obtain t where
    e1: "sentry_calls (snd (exec (Error (Instance \<lparr>module = ''Db''\<rparr>) (JErrorObj ''boom'') ?ctx) ?w)) =
          sentry_calls ?w @
            [Sentry_captureException_call (JErrorObj ''boom'')
               \<lparr>tags = Some t, extras = None, user = None\<rparr>]"
    and m1: "t ''module'' = Some ''Db''"
    and o1: "\<forall>key. key \<noteq> ''module'' \<longrightarrow>
               t key = [''module'' \<mapsto> ''mine'', ''trace_uid'' \<mapsto> ''old'', ''shard'' \<mapsto> ''7''] key"
    by auto
  from o1 have p1: "t ''trace_uid'' = Some ''old''" "t ''shard'' = Some ''7''" by simp_all
  from inst d obtain f t' where
    b: "Kino_trace \<lparr>module = ''Db''\<rparr> ''req-7'' ?ctx ?w = (Inr f, ?w)"
    and e2: "sentry_calls (snd (f (JErrorObj ''boom'') ?w)) =
          sentry_calls ?w @
            [Sentry_captureException_call (JErrorObj ''boom'')
               \<lparr>tags = Some t', extras = None, user = None\<rparr>]"
    and u2: "t' ''trace_uid'' = Some ''req-7''"
    and m2: "t' ''module'' = Some ''Db''"
    and o2: "\<forall>key. key \<noteq> ''trace_uid'' \<and> key \<noteq> ''module'' \<longrightarrow>
               t' key = [''module'' \<mapsto> ''mine'', ''trace_uid'' \<mapsto> ''old'', ''shard'' \<mapsto> ''7''] key"
    by auto
  from o2 have p2: "t' ''shard'' = Some ''7''" by simp
  from e1 s have e1': "sentry_calls
        (snd (exec (Error (Instance \<lparr>module = ''Db''\<rparr>) (JErrorObj ''boom'') ?ctx) ?w)) =
      [Sentry_captureException_call (JErrorObj ''boom'')
         \<lparr>tags = Some t, extras = None, user = None\<rparr>]"
    by simp
  from e2 s have e2': "sentry_calls (snd (f (JErrorObj ''boom'') ?w)) =
      [Sentry_captureException_call (JErrorObj ''boom'')
         \<lparr>tags = Some t', extras = None, user = None\<rparr>]"
    by simp
  show ?thesis
    by (intro conjI h1 h2 exI [of _ t] exI [of _ f] exI [of _ t'] e1' m1 p1 b e2' m2 u2 p2)
qed

subsection \<open>What init hands to the SDK and to the process\<close>

lemma Kino_init_returns:
  "Kino_instance w = None \<Longrightarrow> fst (Kino_init config w) = Inr ()"
  by (simp add: Kino_init_def Let_def)

lemma Kino_init_sentry_calls:
  assumes "Kino_instance w = None"
  shows "sentry_calls (snd (Kino_init config w)) =
           (case sentry config of
              None \<Rightarrow> sentry_calls w
            | Some s \<Rightarrow> sentry_calls w @ [Sentry_init_call (init_options config s)])"
    and "sentry_client (snd (Kino_init config w)) =
           (case sentry config of
              None \<Rightarrow> sentry_client w
            | Some s \<Rightarrow> Some (init_options config s))"
  using assms
  by (simp_all add: Kino_init_def Let_def process_on_def Sentry_init_def split: option.splits)

lemma Kino_init_listeners:
  assumes "Kino_instance w = None"
  shows "process_listeners (snd (Kino_init config w)) =
           (if truthy_bool (autoCaptureUnhandledRejections config)
            then process_listeners w @
                   [(''unhandledRejection'', unhandledRejection_listener),
                    (''uncaughtException'', uncaughtException_listener)]
            else process_listeners w)"
  using assms
  by (simp add: Kino_init_def Let_def process_on_def Sentry_init_def split: option.splits)

lemma assembled_integrations_members:
  "knexIntegration \<in> set (assembled_integrations config) \<longleftrightarrow>
     packages_includes (packages config) ''knex''"
  "mysql2Integration \<in> set (assembled_integrations config) \<longleftrightarrow>
     packages_includes (packages config) ''mysql2''"
  "onUncaughtExceptionIntegration \<in> set (assembled_integrations config) \<longleftrightarrow>
     \<not> truthy_bool (autoCaptureUnhandledRejections config)"
  "onUnhandledRejectionIntegration \<in> set (assembled_integrations config) \<longleftrightarrow>
     \<not> truthy_bool (autoCaptureUnhandledRejections config)"
  by (simp_all add: assembled_integrations_def baseline_integrations_def Let_def)

lemma init_options_eq:
  "init_options config s =
     spread \<lparr>tracesSampleRate = Value 0.1, defaultIntegrations = Value DefaultsFalse,
             integrations = Value (assembled_integrations config), maxBreadcrumbs = Value 5,
             sendClientReports = Value False, dsn = Absent\<rparr> s"
proof -
  have t: "spread_prop (Value (nullish (tracesSampleRate s) 0.1)) (tracesSampleRate s) =
           spread_prop (Value 0.1) (tracesSampleRate s)"
    by (cases "tracesSampleRate s") simp_all
  have b: "spread_prop (Value (nullish (maxBreadcrumbs s) 5)) (maxBreadcrumbs s) =
           spread_prop (Value 5) (maxBreadcrumbs s)"
    by (cases "maxBreadcrumbs s") simp_all
  have d: "truthy_defaults (defaultIntegrations s) \<Longrightarrow>
           spread_prop Absent (defaultIntegrations s) =
           spread_prop (Value DefaultsFalse) (defaultIntegrations s)"
    by (cases "defaultIntegrations s" rule: truthy_defaults.cases) simp_all
  show ?thesis
    using t b d by (simp add: init_options_def spread_def no_options_def Let_def)
qed

text \<open>
  What \<^verbatim>\<open>Sentry.init\<close> receives is the caller's \<^verbatim>\<open>sentry\<close> object spread over the literal's
  own values: a property the object does not carry keeps the literal's value, a property
  it carries replaces it, whatever it holds.
\<close>

lemma init_passes_spread_over_defaults:
  assumes "Kino_instance w = None" and "sentry config = Some s"
  shows "\<exists>opts.
           fst (Kino_init config w) = Inr () \<and>
           sentry_calls (snd (Kino_init config w)) = sentry_calls w @ [Sentry_init_call opts] \<and>
           opts =
             spread \<lparr>tracesSampleRate = Value 0.1, defaultIntegrations = Value DefaultsFalse,
                     integrations = Value (assembled_integrations config),
                     maxBreadcrumbs = Value 5, sendClientReports = Value False,
                     dsn = Absent\<rparr> s \<and>
           tracesSampleRate opts =
             (case tracesSampleRate s of Absent \<Rightarrow> Value 0.1 | Undefined \<Rightarrow> Undefined
              | Value r \<Rightarrow> Value r) \<and>
           maxBreadcrumbs opts =
             (case maxBreadcrumbs s of Absent \<Rightarrow> Value 5 | Undefined \<Rightarrow> Undefined
              | Value n \<Rightarrow> Value n) \<and>
           sendClientReports opts =
             (case sendClientReports s of Absent \<Rightarrow> Value False | Undefined \<Rightarrow> Undefined
              | Value b \<Rightarrow> Value b) \<and>
           dsn opts = dsn s"
proof -
  let ?opts = "init_options config s"
  have "fst (Kino_init config w) = Inr ()"
    using assms(1) by (rule Kino_init_returns)
  moreover have "sentry_calls (snd (Kino_init config w)) = sentry_calls w @ [Sentry_init_call ?opts]"
    using Kino_init_sentry_calls(1) [OF assms(1), of config] assms(2) by simp
  moreover note init_options_eq [of config s]
  moreover have "tracesSampleRate ?opts =
             (case tracesSampleRate s of Absent \<Rightarrow> Value 0.1 | Undefined \<Rightarrow> Undefined
              | Value r \<Rightarrow> Value r)"
    by (cases "tracesSampleRate s") (simp_all add: init_options_eq spread_def)
  moreover have "maxBreadcrumbs ?opts =
             (case maxBreadcrumbs s of Absent \<Rightarrow> Value 5 | Undefined \<Rightarrow> Undefined
              | Value n \<Rightarrow> Value n)"
    by (cases "maxBreadcrumbs s") (simp_all add: init_options_eq spread_def)
  moreover have "sendClientReports ?opts =
             (case sendClientReports s of Absent \<Rightarrow> Value False | Undefined \<Rightarrow> Undefined
              | Value b \<Rightarrow> Value b)"
    by (cases "sendClientReports s") (simp_all add: init_options_eq spread_def)
  moreover have "dsn ?opts = dsn s"
    by (cases "dsn s") (simp_all add: init_options_eq spread_def)
  ultimately show ?thesis by blast
qed

text \<open>
  Claim C8. With a \<^verbatim>\<open>sentry\<close> configuration, the options passed to \<^verbatim>\<open>Sentry.init\<close> have the
  trace sample rate defaulting to 0.1, the breadcrumb cap defaulting to 5 and client
  reporting off, and an option the caller supplies replaces the default. The code
  computes \<^verbatim>\<open>config.sentry.tracesSampleRate ?? 0.1\<close> and \<^verbatim>\<open>config.sentry.maxBreadcrumbs ?? 5\<close>,
  which give 0.1 and 5 for a property that is absent or \<^verbatim>\<open>undefined\<close>, and then spreads
  \<^verbatim>\<open>config.sentry\<close> over the literal, so that a property present with \<^verbatim>\<open>undefined\<close>
  overwrites the default just computed: after
  \<^verbatim>\<open>Kino.init({sentry: {tracesSampleRate: undefined, maxBreadcrumbs: undefined}})\<close> the SDK
  is given \<^verbatim>\<open>undefined\<close> for both.
\<close>

theorem undefined_options_lose_their_defaults:
  "nullish (tracesSampleRate (no_options\<lparr>tracesSampleRate := Undefined,
                                            maxBreadcrumbs := Undefined\<rparr>)) (0.1 :: real) = 0.1 \<and>
   nullish (maxBreadcrumbs (no_options\<lparr>tracesSampleRate := Undefined,
                                          maxBreadcrumbs := Undefined\<rparr>)) (5 :: int) = 5 \<and>
   sentry_calls
     (snd (Kino_init
             (empty_config\<lparr>sentry := Some (no_options\<lparr>tracesSampleRate := Undefined,
                                                      maxBreadcrumbs := Undefined\<rparr>)\<rparr>)
             (process_start fixed_clock))) =
     [Sentry_init_call
        \<lparr>tracesSampleRate = Undefined, defaultIntegrations = Value DefaultsFalse,
         integrations = Value (baseline_integrations @
            [onUncaughtExceptionIntegration, onUnhandledRejectionIntegration]),
         maxBreadcrumbs = Undefined, sendClientReports = Value False, dsn = Absent\<rparr>]"
proof -
  let ?s = "no_options\<lparr>tracesSampleRate := Undefined, maxBreadcrumbs := Undefined\<rparr>"
  let ?c = "empty_config\<lparr>sentry := Some ?s\<rparr>"
  have h: "Kino_instance (process_start fixed_clock) = None" by (simp add: process_start_def)
  have e: "sentry_calls (process_start fixed_clock) = []" by (simp add: process_start_def)
  have a: "assembled_integrations ?c =
      baseline_integrations @ [onUncaughtExceptionIntegration, onUnhandledRejectionIntegration]"
    by (simp add: assembled_integrations_def empty_config_def Let_def)
  have o: "init_options ?c ?s =
      \<lparr>tracesSampleRate = Undefined, defaultIntegrations = Value DefaultsFalse,
       integrations = Value (baseline_integrations @
          [onUncaughtExceptionIntegration, onUnhandledRejectionIntegration]),
       maxBreadcrumbs = Undefined, sendClientReports = Value False, dsn = Absent\<rparr>"
    using a by (simp add: init_options_eq spread_def no_options_def)
  have calls: "sentry_calls (snd (Kino_init ?c (process_start fixed_clock))) =
      [Sentry_init_call (init_options ?c ?s)]"
    using Kino_init_sentry_calls(1) [OF h, of ?c] e by simp
  have c3: "sentry_calls (snd (Kino_init ?c (process_start fixed_clock))) =
      [Sentry_init_call
         \<lparr>tracesSampleRate = Undefined, defaultIntegrations = Value DefaultsFalse,
          integrations = Value (baseline_integrations @
             [onUncaughtExceptionIntegration, onUnhandledRejectionIntegration]),
          maxBreadcrumbs = Undefined, sendClientReports = Value False, dsn = Absent\<rparr>]"
    by (simp only: calls o)
  have n1: "nullish (tracesSampleRate ?s) (0.1 :: real) = 0.1"
    and n2: "nullish (maxBreadcrumbs ?s) (5 :: int) = 5"
    by (simp_all add: no_options_def)
  show ?thesis by (intro conjI n1 n2 c3)
qed

subsection \<open>Database-driver integrations\<close>

text \<open>
  Claim C6, as amended. The integration list is assembled, and \<^verbatim>\<open>Sentry.init\<close> called, only
  inside \<^verbatim>\<open>if (config.sentry)\<close>. When \<^verbatim>\<open>init\<close> is called with a \<^verbatim>\<open>sentry\<close> configuration, the
  list it assembles contains the knex integration exactly when \<^verbatim>\<open>packages\<close> includes
  \<^verbatim>\<open>'knex'\<close> and the mysql2 integration exactly when it includes \<^verbatim>\<open>'mysql2'\<close>, so neither
  when \<^verbatim>\<open>packages\<close> is omitted; that list is the one passed to \<^verbatim>\<open>Sentry.init\<close> unless the
  \<^verbatim>\<open>sentry\<close> object carries an \<^verbatim>\<open>integrations\<close> property of its own, which the final spread
  puts in its place. Without a \<^verbatim>\<open>sentry\<close> configuration \<^verbatim>\<open>init\<close> calls nothing on the SDK.
\<close>

theorem packages_select_integrations:
  assumes "Kino_instance w = None"
  shows "fst (Kino_init config w) = Inr () \<and>
         (sentry config = None \<longrightarrow>
            sentry_calls (snd (Kino_init config w)) = sentry_calls w) \<and>
         (\<forall>s. sentry config = Some s \<longrightarrow>
            (\<exists>opts. sentry_calls (snd (Kino_init config w)) =
                      sentry_calls w @ [Sentry_init_call opts] \<and>
                    integrations opts =
                      (case integrations s of
                         Absent \<Rightarrow> Value (assembled_integrations config)
                       | Undefined \<Rightarrow> Undefined
                       | Value l \<Rightarrow> Value l))) \<and>
         (knexIntegration \<in> set (assembled_integrations config) \<longleftrightarrow>
            packages_includes (packages config) ''knex'') \<and>
         (mysql2Integration \<in> set (assembled_integrations config) \<longleftrightarrow>
            packages_includes (packages config) ''mysql2'') \<and>
         (packages config = Some [''knex''] \<longrightarrow>
            knexIntegration \<in> set (assembled_integrations config)) \<and>
         (packages config = Some [''mysql2''] \<longrightarrow>
            mysql2Integration \<in> set (assembled_integrations config)) \<and>
         (packages config = None \<longrightarrow>
            knexIntegration \<notin> set (assembled_integrations config) \<and>
            mysql2Integration \<notin> set (assembled_integrations config))"
proof -
  have ret: "fst (Kino_init config w) = Inr ()"
    using assms by (rule Kino_init_returns)
  have none: "sentry config = None \<longrightarrow>
            sentry_calls (snd (Kino_init config w)) = sentry_calls w"
    using Kino_init_sentry_calls(1) [OF assms, of config] by simp
  have passed: "\<forall>s. sentry config = Some s \<longrightarrow>
            (\<exists>opts. sentry_calls (snd (Kino_init config w)) =
                      sentry_calls w @ [Sentry_init_call opts] \<and>
                    integrations opts =
                      (case integrations s of
                         Absent \<Rightarrow> Value (assembled_integrations config)
                       | Undefined \<Rightarrow> Undefined
                       | Value l \<Rightarrow> Value l))"
  proof (intro allI impI)
    fix s assume s: "sentry config = Some s"
    have "sentry_calls (snd (Kino_init config w)) =
            sentry_calls w @ [Sentry_init_call (init_options config s)]"
      using Kino_init_sentry_calls(1) [OF assms, of config] s by simp
    moreover have "integrations (init_options config s) =
                      (case integrations s of
                         Absent \<Rightarrow> Value (assembled_integrations config)
                       | Undefined \<Rightarrow> Undefined
                       | Value l \<Rightarrow> Value l)"
      by (cases "integrations s") (simp_all add: init_options_eq spread_def)
    ultimately show "\<exists>opts. sentry_calls (snd (Kino_init config w)) =
                      sentry_calls w @ [Sentry_init_call opts] \<and>
                    integrations opts =
                      (case integrations s of
                         Absent \<Rightarrow> Value (assembled_integrations config)
                       | Undefined \<Rightarrow> Undefined
                       | Value l \<Rightarrow> Value l)"
      by blast
  qed
  have knex: "packages config = Some [''knex''] \<longrightarrow>
              knexIntegration \<in> set (assembled_integrations config)"
    by (simp add: assembled_integrations_members)
  have mysql: "packages config = Some [''mysql2''] \<longrightarrow>
              mysql2Integration \<in> set (assembled_integrations config)"
    by (simp add: assembled_integrations_members)
  have neither: "packages config = None \<longrightarrow>
              knexIntegration \<notin> set (assembled_integrations config) \<and>
              mysql2Integration \<notin> set (assembled_integrations config)"
    by (simp add: assembled_integrations_members)
  show ?thesis
    by (intro conjI ret none passed knex mysql neither assembled_integrations_members(1,2))
qed

theorem packages_select_integrations_witness:
  "Kino_instance (process_start fixed_clock) = None \<and>
   sentry (empty_config\<lparr>packages := Some [''knex''], sentry := Some no_options\<rparr>) =
     Some no_options \<and>
   (\<exists>l. sentry_calls
          (snd (Kino_init (empty_config\<lparr>packages := Some [''knex''], sentry := Some no_options\<rparr>)
                  (process_start fixed_clock))) =
          [Sentry_init_call
             \<lparr>tracesSampleRate = Value 0.1, defaultIntegrations = Value DefaultsFalse,
              integrations = Value l, maxBreadcrumbs = Value 5,
              sendClientReports = Value False, dsn = Absent\<rparr>] \<and>
        l = assembled_integrations
              (empty_config\<lparr>packages := Some [''knex''], sentry := Some no_options\<rparr>) \<and>
        knexIntegration \<in> set l \<and> mysql2Integration \<notin> set l)"
proof -
  let ?c = "empty_config\<lparr>packages := Some [''knex''], sentry := Some no_options\<rparr>"
  have h1: "Kino_instance (process_start fixed_clock) = None" by (simp add: process_start_def)
  have h2: "sentry ?c = Some no_options" by simp
  have e: "sentry_calls (process_start fixed_clock) = []" by (simp add: process_start_def)
  have p: "packages ?c = Some [''knex'']" by simp
  note inst = packages_select_integrations [OF h1, of ?c]
  from inst h2 e obtain opts where
    calls: "sentry_calls (snd (Kino_init ?c (process_start fixed_clock))) = [Sentry_init_call opts]"
    by auto
  from inst p have knex: "knexIntegration \<in> set (assembled_integrations ?c)"
    by blast
  from inst have "mysql2Integration \<in> set (assembled_integrations ?c) \<longleftrightarrow>
                 packages_includes (packages ?c) ''mysql2''"
    by blast
  then have mysql: "mysql2Integration \<notin> set (assembled_integrations ?c)" by simp
  have o: "opts = init_options ?c no_options"
    using calls Kino_init_sentry_calls(1) [OF h1, of ?c] e by simp
  have "opts = \<lparr>tracesSampleRate = Value 0.1, defaultIntegrations = Value DefaultsFalse,
              integrations = Value (assembled_integrations ?c), maxBreadcrumbs = Value 5,
              sendClientReports = Value False, dsn = Absent\<rparr>"
    by (simp add: o init_options_eq spread_def no_options_def)
  with h1 h2 calls knex mysql show ?thesis by blast
qed

text \<open>
  The claim as it stands fails at its own input: \<^verbatim>\<open>init({packages: ['knex']})\<close> has no
  \<^verbatim>\<open>sentry\<close> key, so no list is assembled and \<^verbatim>\<open>Sentry.init\<close> is never called. With a
  \<^verbatim>\<open>sentry\<close> object that brings its own \<^verbatim>\<open>integrations\<close>, the list passed is the caller's.
\<close>

theorem packages_without_sentry_counterexample:
  "packages (empty_config\<lparr>packages := Some [''knex'']\<rparr>) = Some [''knex''] \<and>
   fst (Kino_init (empty_config\<lparr>packages := Some [''knex'']\<rparr>) (process_start fixed_clock)) =
     Inr () \<and>
   sentry_calls
     (snd (Kino_init (empty_config\<lparr>packages := Some [''knex'']\<rparr>) (process_start fixed_clock))) =
     [] \<and>
   sentry_calls
     (snd (Kino_init
             (empty_config\<lparr>packages := Some [''knex''],
                            sentry := Some (no_options\<lparr>integrations := Value [httpIntegration]\<rparr>)\<rparr>)
             (process_start fixed_clock))) =
     [Sentry_init_call
        \<lparr>tracesSampleRate = Value 0.1, defaultIntegrations = Value DefaultsFalse,
         integrations = Value [httpIntegration], maxBreadcrumbs = Value 5,
         sendClientReports = Value False, dsn = Absent\<rparr>]"
  by (simp add: Kino_init_def empty_config_def process_start_def Sentry_init_def
        init_options_eq spread_def no_options_def Let_def)

subsection \<open>Unhandled rejections and uncaught exceptions\<close>

lemma run_listeners_single:
  "run_listeners [l] v w = Kino_static_error v None w"
proof -
  have "run_listener l v w = Kino_static_error v None w" by (cases l) simp_all
  then show ?thesis by (cases "Kino_static_error v None w") (auto split: sum.splits)
qed

text \<open>
  Claim C7, as amended. \<^verbatim>\<open>init\<close> with \<^verbatim>\<open>autoCaptureUnhandledRejections: true\<close> registers
  one \<^verbatim>\<open>unhandledRejection\<close> and one \<^verbatim>\<open>uncaughtException\<close> listener, each of which passes
  its argument to the static \<^verbatim>\<open>error\<close>, and the list it assembles leaves out the SDK's
  two integrations; without the flag it registers no listener and the list it assembles
  has both SDK integrations. The two never go together. The list is assembled and
  passed to \<^verbatim>\<open>Sentry.init\<close> only when a \<^verbatim>\<open>sentry\<close> configuration is supplied (and is
  replaced by the caller's own \<^verbatim>\<open>integrations\<close> when the \<^verbatim>\<open>sentry\<close> object carries one);
  without a \<^verbatim>\<open>sentry\<close> configuration nothing is passed to the SDK.
\<close>

theorem auto_capture_exclusive:
  assumes "Kino_instance w = None"
  shows "fst (Kino_init config w) = Inr () \<and>
         (truthy_bool (autoCaptureUnhandledRejections config) \<longrightarrow>
            process_listeners (snd (Kino_init config w)) =
              process_listeners w @
                [(''unhandledRejection'', unhandledRejection_listener),
                 (''uncaughtException'', uncaughtException_listener)] \<and>
            onUncaughtExceptionIntegration \<notin> set (assembled_integrations config) \<and>
            onUnhandledRejectionIntegration \<notin> set (assembled_integrations config)) \<and>
         (\<not> truthy_bool (autoCaptureUnhandledRejections config) \<longrightarrow>
            process_listeners (snd (Kino_init config w)) = process_listeners w \<and>
            onUncaughtExceptionIntegration \<in> set (assembled_integrations config) \<and>
            onUnhandledRejectionIntegration \<in> set (assembled_integrations config)) \<and>
         (\<forall>l v w'. run_listener l v w' = Kino_static_error v None w') \<and>
         (truthy_bool (autoCaptureUnhandledRejections config) \<and> process_listeners w = [] \<longrightarrow>
            (\<forall>v. process_emit ''unhandledRejection'' v (snd (Kino_init config w)) =
                   Kino_static_error v None (snd (Kino_init config w)) \<and>
                 process_emit ''uncaughtException'' v (snd (Kino_init config w)) =
                   Kino_static_error v None (snd (Kino_init config w)))) \<and>
         (\<forall>s. sentry config = Some s \<longrightarrow>
            (\<exists>opts. sentry_calls (snd (Kino_init config w)) =
                      sentry_calls w @ [Sentry_init_call opts] \<and>
                    integrations opts =
                      (case integrations s of
                         Absent \<Rightarrow> Value (assembled_integrations config)
                       | Undefined \<Rightarrow> Undefined
                       | Value l \<Rightarrow> Value l))) \<and>
         (sentry config = None \<longrightarrow>
            sentry_calls (snd (Kino_init config w)) = sentry_calls w)"
proof -
  have ret: "fst (Kino_init config w) = Inr ()"
    using assms by (rule Kino_init_returns)
  have on: "truthy_bool (autoCaptureUnhandledRejections config) \<longrightarrow>
            process_listeners (snd (Kino_init config w)) =
              process_listeners w @
                [(''unhandledRejection'', unhandledRejection_listener),
                 (''uncaughtException'', uncaughtException_listener)] \<and>
            onUncaughtExceptionIntegration \<notin> set (assembled_integrations config) \<and>
            onUnhandledRejectionIntegration \<notin> set (assembled_integrations config)"
    by (simp add: Kino_init_listeners [OF assms] assembled_integrations_members)
  have off: "\<not> truthy_bool (autoCaptureUnhandledRejections config) \<longrightarrow>
            process_listeners (snd (Kino_init config w)) = process_listeners w \<and>
            onUncaughtExceptionIntegration \<in> set (assembled_integrations config) \<and>
            onUnhandledRejectionIntegration \<in> set (assembled_integrations config)"
    by (simp add: Kino_init_listeners [OF assms] assembled_integrations_members)
  have route: "\<forall>l v w'. run_listener l v w' = Kino_static_error v None w'"
  proof (intro allI)
    fix l v w' show "run_listener l v w' = Kino_static_error v None w'" by (cases l) simp_all
  qed
  have emit: "truthy_bool (autoCaptureUnhandledRejections config) \<and> process_listeners w = [] \<longrightarrow>
            (\<forall>v. process_emit ''unhandledRejection'' v (snd (Kino_init config w)) =
                   Kino_static_error v None (snd (Kino_init config w)) \<and>
                 process_emit ''uncaughtException'' v (snd (Kino_init config w)) =
                   Kino_static_error v None (snd (Kino_init config w)))"
    by (simp add: process_emit_def Kino_init_listeners [OF assms] run_listeners_single
          del: run_listeners.simps)
  have passed: "\<forall>s. sentry config = Some s \<longrightarrow>
            (\<exists>opts. sentry_calls (snd (Kino_init config w)) =
                      sentry_calls w @ [Sentry_init_call opts] \<and>
                    integrations opts =
                      (case integrations s of
                         Absent \<Rightarrow> Value (assembled_integrations config)
                       | Undefined \<Rightarrow> Undefined
                       | Value l \<Rightarrow> Value l))"
  proof (intro allI impI)
    fix s assume s: "sentry config = Some s"
    have "sentry_calls (snd (Kino_init config w)) =
            sentry_calls w @ [Sentry_init_call (init_options config s)]"
      using Kino_init_sentry_calls(1) [OF assms, of config] s by simp
    moreover have "integrations (init_options config s) =
                      (case integrations s of
                         Absent \<Rightarrow> Value (assembled_integrations config)
                       | Undefined \<Rightarrow> Undefined
                       | Value l \<Rightarrow> Value l)"
      by (cases "integrations s") (simp_all add: init_options_eq spread_def)
    ultimately show "\<exists>opts. sentry_calls (snd (Kino_init config w)) =
                      sentry_calls w @ [Sentry_init_call opts] \<and>
                    integrations opts =
                      (case integrations s of
                         Absent \<Rightarrow> Value (assembled_integrations config)
                       | Undefined \<Rightarrow> Undefined
                       | Value l \<Rightarrow> Value l)"
      by blast
  qed
  have none: "sentry config = None \<longrightarrow>
            sentry_calls (snd (Kino_init config w)) = sentry_calls w"
    using Kino_init_sentry_calls(1) [OF assms, of config] by simp
  show ?thesis by (intro conjI ret on off route emit passed none)
qed

theorem auto_capture_exclusive_witness:
  "Kino_instance (process_start fixed_clock) = None \<and>
   truthy_bool (autoCaptureUnhandledRejections
                  (empty_config\<lparr>autoCaptureUnhandledRejections := Some True,
                                 sentry := Some no_options\<rparr>)) \<and>
   process_listeners
     (snd (Kino_init (empty_config\<lparr>autoCaptureUnhandledRejections := Some True,
                                    sentry := Some no_options\<rparr>)
             (process_start fixed_clock))) =
     [(''unhandledRejection'', unhandledRejection_listener),
      (''uncaughtException'', uncaughtException_listener)] \<and>
   onUncaughtExceptionIntegration \<notin>
     set (assembled_integrations (empty_config\<lparr>autoCaptureUnhandledRejections := Some True,
                                                sentry := Some no_options\<rparr>)) \<and>
   \<not> truthy_bool (autoCaptureUnhandledRejections (empty_config\<lparr>sentry := Some no_options\<rparr>)) \<and>
   process_listeners
     (snd (Kino_init (empty_config\<lparr>sentry := Some no_options\<rparr>) (process_start fixed_clock))) =
     [] \<and>
   onUncaughtExceptionIntegration \<in>
     set (assembled_integrations (empty_config\<lparr>sentry := Some no_options\<rparr>))"
proof -
  let ?on = "empty_config\<lparr>autoCaptureUnhandledRejections := Some True, sentry := Some no_options\<rparr>"
  let ?off = "empty_config\<lparr>sentry := Some no_options\<rparr>"
  have h: "Kino_instance (process_start fixed_clock) = None" by (simp add: process_start_def)
  have e: "process_listeners (process_start fixed_clock) = []" by (simp add: process_start_def)
  have t: "truthy_bool (autoCaptureUnhandledRejections ?on)" by simp
  have f: "\<not> truthy_bool (autoCaptureUnhandledRejections ?off)"
    by (simp add: empty_config_def)
  from auto_capture_exclusive [OF h, of ?on] auto_capture_exclusive [OF h, of ?off] h e t f
  show ?thesis by simp
qed

text \<open>
  The claim as it stands fails for \<^verbatim>\<open>init({})\<close>: the flag is omitted, no listener is
  registered, and the SDK's two integrations are not included anywhere, since the SDK is
  never initialised.
\<close>

theorem flag_omitted_without_sentry_counterexample:
  "autoCaptureUnhandledRejections empty_config = None \<and>
   fst (Kino_init empty_config (process_start fixed_clock)) = Inr () \<and>
   sentry_calls (snd (Kino_init empty_config (process_start fixed_clock))) = [] \<and>
   sentry_client (snd (Kino_init empty_config (process_start fixed_clock))) = None \<and>
   process_listeners (snd (Kino_init empty_config (process_start fixed_clock))) = []"
  by (simp add: Kino_init_def empty_config_def process_start_def Let_def)

end
